theory Spec2Isabelle
  imports Complex_Main
begin

section \<open>Numbers\<close>

text \<open>
  A JavaScript number is an IEEE 754 binary64 value: a finite double, given by its exact
  rational value, an infinity (\<open>True\<close> for the negative one) or \<open>NaN\<close>. The sign of
  zero is not modelled.
\<close>

datatype jsnum = Num rat | Infinity bool | NaN

text \<open>The number of binary digits of a positive integer.\<close>

function bitLength :: "int \<Rightarrow> nat" where
  "bitLength n = (if n \<le> 0 then 0 else Suc (bitLength (n div 2)))"
  by pat_completeness auto
termination
  by (relation "measure nat") auto

declare bitLength.simps [simp del]

definition pow2 :: "int \<Rightarrow> rat" where
  "pow2 e = (if e \<ge> 0 then 2 ^ nat e else 1 / 2 ^ nat (- e))"

text \<open>For \<open>x > 0\<close>, the exponent \<open>e\<close> with \<open>2 ^ e \<le> x < 2 ^ (e + 1)\<close>.\<close>

definition ilog2 :: "rat \<Rightarrow> int" where
  "ilog2 x = (if x \<ge> 1 then int (bitLength \<lfloor>x\<rfloor>) - 1
              else - int (bitLength (\<lceil>1 / x\<rceil> - 1)))"

text \<open>Rounding to the nearest integer, ties to the even one.\<close>

definition roundHalfEven :: "rat \<Rightarrow> int" where
  "roundHalfEven x =
     (let f = \<lfloor>x\<rfloor>; r = x - of_int f
      in if r < 1 / 2 then f else if r > 1 / 2 then f + 1 else if even f then f else f + 1)"

text \<open>
  The binary64 rounding of an exact value (round to nearest, ties to even): 53
  significant bits for a normal result, the fixed quantum \<open>2 ^ -1074\<close> below
  \<open>2 ^ -1022\<close>, an infinity when the rounded magnitude reaches \<open>2 ^ 1024\<close>.
\<close>

definition roundD :: "rat \<Rightarrow> jsnum" where
  "roundD x =
     (if x = 0 then Num 0
      else let a = \<bar>x\<bar>;
               e = max (ilog2 a) (- 1022);
               q = pow2 (e - 52);
               m = roundHalfEven (a / q)
           in if e > 1023 \<or> (e = 1023 \<and> m \<ge> 2 ^ 53) then Infinity (x < 0)
              else Num (if x < 0 then - (of_int m * q) else of_int m * q))"

text \<open>The operators \<open>+\<close>, \<open>*\<close> and \<open>/\<close> on numbers: the exact result, rounded.\<close>

fun jsAdd :: "jsnum \<Rightarrow> jsnum \<Rightarrow> jsnum" where
  "jsAdd (Num a) (Num b) = roundD (a + b)"
| "jsAdd NaN _ = NaN"
| "jsAdd _ NaN = NaN"
| "jsAdd (Infinity s) (Infinity t) = (if s = t then Infinity s else NaN)"
| "jsAdd (Infinity s) (Num b) = Infinity s"
| "jsAdd (Num a) (Infinity t) = Infinity t"

fun jsMul :: "jsnum \<Rightarrow> jsnum \<Rightarrow> jsnum" where
  "jsMul (Num a) (Num b) = roundD (a * b)"
| "jsMul NaN _ = NaN"
| "jsMul _ NaN = NaN"
| "jsMul (Infinity s) (Infinity t) = Infinity (s \<noteq> t)"
| "jsMul (Infinity s) (Num b) = (if b = 0 then NaN else Infinity (s \<noteq> (b < 0)))"
| "jsMul (Num a) (Infinity t) = (if a = 0 then NaN else Infinity ((a < 0) \<noteq> t))"

fun jsDiv :: "jsnum \<Rightarrow> jsnum \<Rightarrow> jsnum" where
  "jsDiv (Num a) (Num b) =
     (if b = 0 then (if a = 0 then NaN else Infinity (a < 0)) else roundD (a / b))"
| "jsDiv NaN _ = NaN"
| "jsDiv _ NaN = NaN"
| "jsDiv (Infinity s) (Infinity t) = NaN"
| "jsDiv (Infinity s) (Num b) = Infinity (s \<noteq> (b < 0))"
| "jsDiv (Num a) (Infinity t) = Num 0"

text \<open>\<open>x > 0\<close>, as the filter \<open>score: {gt: 0}\<close> evaluates it.\<close>

fun jsPositive :: "jsnum \<Rightarrow> bool" where
  "jsPositive (Num a) = (a > 0)"
| "jsPositive (Infinity s) = (\<not> s)"
| "jsPositive NaN = False"

text \<open>
  An array length is an integer below \<open>2 ^ 32\<close> and a duration \<open>Date.now() - startTime\<close>
  an integer below \<open>2 ^ 53\<close> in magnitude: both are doubles as they are.
\<close>

definition lengthNum :: "'a list \<Rightarrow> jsnum" where
  "lengthNum xs = Num (of_nat (length xs))"

definition durationNum :: "int \<Rightarrow> jsnum" where
  "durationNum t = Num (of_int t)"

section \<open>Data model\<close>

text \<open>
  The persistence layer (Prisma) is an explicit store \<open>db\<close>. JavaScript strings are
  \<open>string\<close>; a nullable column is an \<open>option\<close>; integer columns and millisecond
  timestamps are \<open>int\<close>; the score and the mean execution time, which the code
  computes in double precision, are \<open>jsnum\<close>. \<open>q_maxMarks\<close> is the exact value of the
  (finite) number that Prisma returns for the column.
\<close>

datatype visibility = VISIBLE | HIDDEN

text \<open>
  A testcase id is a database number, or the string \<open>'custom'\<close> of the ad-hoc
  testcase that POST /run builds. That ad-hoc object has no \<open>visibility\<close> field
  (\<open>None\<close>).
\<close>

datatype tcid = TcNum int | TcCustom

record testcase =
  tc_id :: tcid
  tc_input :: string
  tc_expectedOutput :: string
  tc_visibility :: "visibility option"

record question =
  q_id :: int
  q_examId :: int
  q_timeLimit :: "int option"
  q_memoryLimit :: "int option"
  q_maxMarks :: rat
  q_testcases :: "testcase list"

record exam =
  e_id :: int
  e_code :: string
  e_title :: string
  e_startTime :: "int option"
  e_endTime :: "int option"

record participant =
  p_id :: int
  p_participantId :: string
  p_exams :: "int list"

record submission =
  s_participantId :: int
  s_questionId :: int
  s_language :: string
  s_code :: string
  s_score :: jsnum
  s_totalTests :: nat
  s_passedTests :: nat
  s_status :: string
  s_executionTime :: jsnum

text \<open>
  \<open>db_exams\<close> is the exam table in the order that
  \<open>findMany({orderBy: [{sequence: 'asc'}, {createdAt: 'asc'}]})\<close> returns it.
\<close>

record db =
  db_exams :: "exam list"
  db_questions :: "question list"
  db_participants :: "participant list"
  db_submissions :: "submission list"

section \<open>Strings\<close>

text \<open>
  \<open>String.prototype.trim\<close> strips white space and line terminators from both ends.
  A \<open>char\<close> stands for a code unit below 256, where these are TAB, LF, VT, FF, CR,
  SPACE and NBSP.
\<close>

definition isWhiteSpace :: "char \<Rightarrow> bool" where
  "isWhiteSpace c = (c \<in> set [CHR 0x09, CHR 0x0A, CHR 0x0B, CHR 0x0C, CHR 0x0D, CHR 0x20, CHR 0xA0])"

definition trim :: "string \<Rightarrow> string" where
  "trim s = rev (dropWhile isWhiteSpace (rev (dropWhile isWhiteSpace s)))"

text \<open>
  \<open>String.prototype.toLowerCase\<close> on code units below 256: the letters A to Z, and the
  Latin-1 capitals U+00C0 to U+00DE without the multiplication sign U+00D7.
\<close>

definition toLowerChar :: "char \<Rightarrow> char" where
  "toLowerChar c =
     (let n = (of_char c :: nat)
      in if (65 \<le> n \<and> n \<le> 90) \<or> (192 \<le> n \<and> n \<le> 222 \<and> n \<noteq> 215)
         then char_of (n + 32) else c)"

definition toLowerCase :: "string \<Rightarrow> string" where
  "toLowerCase s = map toLowerChar s"

text \<open>\<open>a || b\<close> on strings: the empty string is falsy.\<close>

definition orElse :: "string \<Rightarrow> string \<Rightarrow> string" where
  "orElse a b = (if a \<noteq> [] then a else b)"

text \<open>Decimal rendering of a number inside a template literal.\<close>

definition digitChar :: "nat \<Rightarrow> char" where
  "digitChar d = char_of (48 + d)"

function showNat :: "nat \<Rightarrow> string" where
  "showNat n = (if n < 10 then [digitChar n] else showNat (n div 10) @ [digitChar (n mod 10)])"
  by pat_completeness auto
termination
  by (relation "measure id") auto

declare showNat.simps [simp del]

definition showInt :: "int \<Rightarrow> string" where
  "showInt i = (if i < 0 then CHR ''-'' # showNat (nat (- i)) else showNat (nat i))"

text \<open>\<open>`${x}m`\<close> for a nullable number \<open>x\<close>; \<open>null\<close> renders as \<open>null\<close>.\<close>

definition memTemplate :: "int option \<Rightarrow> string" where
  "memTemplate m = (case m of None \<Rightarrow> ''null'' | Some i \<Rightarrow> showInt i) @ ''m''"

section \<open>The sandbox service\<close>

record runtime =
  rt_language :: string
  rt_version :: string

text \<open>The body of POST /execute, field by field as \<open>executeCode\<close> builds it.\<close>

record exec_request =
  rq_language :: string
  rq_version :: string
  rq_files :: "string list"
  rq_stdin :: string
  rq_compile_timeout :: int
  rq_run_timeout :: int

record compile_part =
  cp_code :: int
  cp_stderr :: string
  cp_output :: string

record run_part =
  rp_code :: "int option"
  rp_signal :: string
  rp_stdout :: string
  rp_stderr :: string

text \<open>A JavaScript value that may be \<open>undefined\<close> or \<open>null\<close>.\<close>

datatype 'a js = Undefined | Null | Val 'a

text \<open>
  The data of a reply to POST /execute: \<open>compile\<close> is present for compiled languages
  only; \<open>run\<close> may be missing from a malformed reply; \<open>run.code\<close> is \<open>null\<close> when a
  signal ended the run; an absent \<open>signal\<close> is the empty string.
\<close>

record exec_response =
  xr_compile :: "compile_part option"
  xr_run :: "run_part js"

text \<open>
  What the try block of \<open>executeCode\<close> can throw: an axios error that carries an HTTP
  response, with \<open>error.response.data\<close> (and in it \<open>message\<close>, possibly absent) and
  \<open>error.message\<close>; or an error without \<open>response\<close> (no reply from the network, the
  \<open>Error\<close> for an unsupported language, a \<open>TypeError\<close>), with its \<open>message\<close>.
\<close>

datatype failure = HttpFailure "string option js" string | OtherFailure string

text \<open>An axios call resolves with data, or rejects.\<close>

datatype 'a reply = Resolved 'a | Failed failure

text \<open>
  The sandbox is a parameter. \<open>sb_elapsed\<close> is the wall-clock duration
  \<open>Date.now() - startTime\<close> of one \<open>executeCode\<close> call.
\<close>

record sandbox =
  sb_runtimes :: "runtime list reply"
  sb_execute :: "exec_request \<Rightarrow> exec_response reply"
  sb_elapsed :: "string \<Rightarrow> string \<Rightarrow> string \<Rightarrow> int"

datatype call = GetRuntimes | PostExecute exec_request

record exec_result =
  res_output :: string
  res_error :: "string option"
  res_executionTime :: int

text \<open>
  An executor is what \<open>runTestcases\<close> awaits: it resolves with a result (\<open>Inr\<close>) or
  throws (\<open>Inl\<close> the error's message), and the requests it sent are logged.
\<close>

type_synonym executor = "string \<Rightarrow> string \<Rightarrow> string \<Rightarrow> int \<Rightarrow> (string + exec_result) \<times> call list"

text \<open>
  \<open>languageMap[language]\<close> is a string for the four own keys of the object, and a
  function or an object for a property name that the object inherits from
  \<open>Object.prototype\<close>; \<open>Inherited\<close> carries the text of that value in a template literal.
\<close>

datatype piston = Name string | Inherited string

definition inheritedFunctions :: "string list" where
  "inheritedFunctions =
     [''__defineGetter__'', ''__defineSetter__'', ''hasOwnProperty'', ''__lookupGetter__'',
      ''__lookupSetter__'', ''isPrototypeOf'', ''propertyIsEnumerable'', ''toString'', ''valueOf'',
      ''toLocaleString'']"

definition languageMap :: "string \<Rightarrow> piston option" where
  "languageMap l =
     (if l = ''C'' then Some (Name ''c'')
      else if l = ''C++'' then Some (Name ''c++'')
      else if l = ''Python'' then Some (Name ''python'')
      else if l = ''Java'' then Some (Name ''java'')
      else if l = ''constructor'' then Some (Inherited ''function Object() { [native code] }'')
      else if l = ''__proto__'' then Some (Inherited ''[object Object]'')
      else if l \<in> set inheritedFunctions
        then Some (Inherited (''function '' @ l @ ''() { [native code] }''))
      else None)"

definition pistonText :: "piston \<Rightarrow> string" where
  "pistonText p = (case p of Name l \<Rightarrow> l | Inherited t \<Rightarrow> t)"

text \<open>The message of the \<open>TypeError\<close> for reading a property of \<open>undefined\<close> or \<open>null\<close>.\<close>

definition cannotRead :: "string \<Rightarrow> string \<Rightarrow> string" where
  "cannotRead what property =
     ''Cannot read properties of '' @ what @ '' (reading '' @ [CHR 0x27] @ property @ [CHR 0x27] @ '')''"

text \<open>
  The catch block of \<open>executeCode\<close>. Reading \<open>error.response.data.message\<close> throws
  when \<open>data\<close> is \<open>undefined\<close> or \<open>null\<close>, and \<open>executeCode\<close> then rejects with that
  \<open>TypeError\<close>.
\<close>

definition caught :: "failure \<Rightarrow> int \<Rightarrow> string + exec_result" where
  "caught err elapsed =
     (case err of
        HttpFailure data message \<Rightarrow>
          (case data of
             Undefined \<Rightarrow> Inl (cannotRead ''undefined'' ''message'')
           | Null \<Rightarrow> Inl (cannotRead ''null'' ''message'')
           | Val dataMessage \<Rightarrow>
               Inr \<lparr>res_output = [],
                    res_error = Some (''API Error: ''
                      @ orElse (case dataMessage of None \<Rightarrow> [] | Some m \<Rightarrow> m) message),
                    res_executionTime = elapsed\<rparr>)
      | OtherFailure message \<Rightarrow>
          Inr \<lparr>res_output = [], res_error = Some message, res_executionTime = elapsed\<rparr>)"

text \<open>
  The three-way classification of the sandbox's response. Reading \<open>run.code\<close> of a
  reply without \<open>run\<close> throws inside the try block.
\<close>

definition classify :: "exec_response \<Rightarrow> int \<Rightarrow> string + exec_result" where
  "classify resp elapsed =
     (case (case xr_compile resp of None \<Rightarrow> None
            | Some c \<Rightarrow> if cp_code c \<noteq> 0 then Some c else None) of
        Some c \<Rightarrow>
          Inr \<lparr>res_output = [],
               res_error = Some (orElse (cp_stderr c) (orElse (cp_output c) ''Compilation error'')),
               res_executionTime = elapsed\<rparr>
      | None \<Rightarrow>
          (case xr_run resp of
             Undefined \<Rightarrow> caught (OtherFailure (cannotRead ''undefined'' ''code'')) elapsed
           | Null \<Rightarrow> caught (OtherFailure (cannotRead ''null'' ''code'')) elapsed
           | Val r \<Rightarrow>
               if rp_code r \<noteq> Some 0 \<and> rp_signal r \<noteq> []
               then Inr \<lparr>res_output = rp_stdout r,
                         res_error = Some (orElse (rp_stderr r)
                                             (''Runtime error (signal: '' @ rp_signal r @ '')'')),
                         res_executionTime = elapsed\<rparr>
               else Inr \<lparr>res_output = rp_stdout r,
                         res_error = (if rp_stderr r \<noteq> [] then Some (rp_stderr r) else None),
                         res_executionTime = elapsed\<rparr>))"

definition executeCode :: "sandbox \<Rightarrow> executor" where
  "executeCode sb code language input timeLimit =
     (let elapsed = sb_elapsed sb code language input;
          pistonLanguage =
            (case languageMap language of Some p \<Rightarrow> p | None \<Rightarrow> Name (toLowerCase language))
      in case sb_runtimes sb of
           Failed err \<Rightarrow> (caught err elapsed, [GetRuntimes])
         | Resolved runtimes \<Rightarrow>
             (case find (\<lambda>r. Name (rt_language r) = pistonLanguage) runtimes of
                None \<Rightarrow>
                  (caught (OtherFailure (''Language '' @ language @ '' not supported. Tried: ''
                                          @ pistonText pistonLanguage)) elapsed,
                   [GetRuntimes])
              | Some runtime \<Rightarrow>
                  (let runTimeoutMs = (if timeLimit \<noteq> 0 then timeLimit else 5) * 1000;
                       req = \<lparr>rq_language = pistonText pistonLanguage,
                              rq_version = rt_version runtime,
                              rq_files = [code],
                              rq_stdin = input,
                              rq_compile_timeout = 10000,
                              rq_run_timeout = runTimeoutMs\<rparr>
                   in case sb_execute sb req of
                        Failed err \<Rightarrow> (caught err elapsed, [GetRuntimes, PostExecute req])
                      | Resolved resp \<Rightarrow> (classify resp elapsed, [GetRuntimes, PostExecute req]))))"

section \<open>Testcase runner\<close>

record outcome =
  o_testcaseId :: tcid
  o_passed :: bool
  o_input :: string
  o_expectedOutput :: string
  o_actualOutput :: string
  o_error :: "string option"
  o_executionTime :: int

text \<open>One iteration of the loop of \<open>runTestcases\<close>: the try block and its catch.\<close>

definition runOne :: "executor \<Rightarrow> string \<Rightarrow> string \<Rightarrow> int \<Rightarrow> testcase \<Rightarrow> outcome \<times> call list" where
  "runOne exec code language timeLimit testcase =
     (case exec code language (tc_input testcase) timeLimit of
        (Inr result, calls) \<Rightarrow>
          (let actualOutput = trim (res_output result);
               expectedOutput = trim (tc_expectedOutput testcase);
               passed = (actualOutput = expectedOutput)
           in (\<lparr>o_testcaseId = tc_id testcase,
                 o_passed = passed,
                 o_input = tc_input testcase,
                 o_expectedOutput = tc_expectedOutput testcase,
                 o_actualOutput = res_output result,
                 o_error = res_error result,
                 o_executionTime = res_executionTime result\<rparr>, calls))
      | (Inl message, calls) \<Rightarrow>
          (\<lparr>o_testcaseId = tc_id testcase,
            o_passed = False,
            o_input = tc_input testcase,
            o_expectedOutput = tc_expectedOutput testcase,
            o_actualOutput = [],
            o_error = Some message,
            o_executionTime = 0\<rparr>, calls))"

text \<open>
  The \<open>for ... of\<close> loop, with \<open>results\<close> (and the request log) as accumulators;
  \<open>results.push\<close> appends.
\<close>

fun runLoop :: "executor \<Rightarrow> string \<Rightarrow> string \<Rightarrow> int \<Rightarrow> outcome list \<Rightarrow> call list
    \<Rightarrow> testcase list \<Rightarrow> outcome list \<times> call list" where
  "runLoop exec code language timeLimit results sent [] = (results, sent)"
| "runLoop exec code language timeLimit results sent (testcase # rest) =
     (case runOne exec code language timeLimit testcase of
        (r, calls) \<Rightarrow> runLoop exec code language timeLimit (results @ [r]) (sent @ calls) rest)"

definition runTestcases :: "executor \<Rightarrow> string \<Rightarrow> string \<Rightarrow> testcase list \<Rightarrow> int \<Rightarrow> string
    \<Rightarrow> outcome list \<times> call list" where
  "runTestcases exec code language testcases timeLimit memoryLimit =
     runLoop exec code language timeLimit [] [] testcases"

section \<open>Persistence queries\<close>

text \<open>\<open>prisma.question.findMany({where: {examId}})\<close>.\<close>

definition questionsOf :: "db \<Rightarrow> int \<Rightarrow> question list" where
  "questionsOf d examId = filter (\<lambda>q. q_examId q = examId) (db_questions d)"

text \<open>
  \<open>prisma.submission.findMany({where: {participantId, questionId: {in: ids}, status:
  'COMPLETED'}, distinct: ['questionId']})\<close>: one row per distinct question id, of
  which the callers read only the number.
\<close>

definition completedSubmissions :: "db \<Rightarrow> int \<Rightarrow> int list \<Rightarrow> int list" where
  "completedSubmissions d participantId ids =
     remdups (map s_questionId
       (filter (\<lambda>s. s_participantId s = participantId \<and> s_questionId s \<in> set ids
                     \<and> s_status s = ''COMPLETED'')
          (db_submissions d)))"

text \<open>The query of POST /login, which filters on \<open>score: {gt: 0}\<close> instead.\<close>

definition scoredSubmissions :: "db \<Rightarrow> int \<Rightarrow> int list \<Rightarrow> int list" where
  "scoredSubmissions d participantId ids =
     remdups (map s_questionId
       (filter (\<lambda>s. s_participantId s = participantId \<and> s_questionId s \<in> set ids
                     \<and> jsPositive (s_score s))
          (db_submissions d)))"

definition findParticipant :: "db \<Rightarrow> int \<Rightarrow> participant option" where
  "findParticipant d participantId = find (\<lambda>p. p_id p = participantId) (db_participants d)"

definition findQuestion :: "db \<Rightarrow> int \<Rightarrow> question option" where
  "findQuestion d questionId = find (\<lambda>q. q_id q = questionId) (db_questions d)"

section \<open>Progression\<close>

text \<open>\<open>now > endTime\<close> when the exam has an end time.\<close>

definition timedOut :: "int \<Rightarrow> exam \<Rightarrow> bool" where
  "timedOut now prevExam = (case e_endTime prevExam of None \<Rightarrow> False | Some t \<Rightarrow> now > t)"

text \<open>\<open>submissions.length === questions.length\<close> for the questions of one exam.\<close>

definition allCompleted :: "db \<Rightarrow> int \<Rightarrow> question list \<Rightarrow> bool" where
  "allCompleted d participantId qs =
     (length (completedSubmissions d participantId (map q_id qs)) = length qs)"

subsection \<open>isExamUnlocked\<close>

fun findIndex :: "('a \<Rightarrow> bool) \<Rightarrow> 'a list \<Rightarrow> nat option" where
  "findIndex P [] = None"
| "findIndex P (x # xs) =
     (if P x then Some 0 else (case findIndex P xs of None \<Rightarrow> None | Some i \<Rightarrow> Some (Suc i)))"

text \<open>The loop over the exams before the target; \<open>return false\<close> ends it.\<close>

fun unlockLoop :: "db \<Rightarrow> int \<Rightarrow> int \<Rightarrow> exam list \<Rightarrow> bool" where
  "unlockLoop d now participantId [] = True"
| "unlockLoop d now participantId (prevExam # rest) =
     (let prevQuestions = questionsOf d (e_id prevExam);
          completed = allCompleted d participantId prevQuestions
      in if \<not> completed \<and> \<not> timedOut now prevExam \<and> length prevQuestions > 0 then False
         else unlockLoop d now participantId rest)"

definition isExamUnlocked :: "db \<Rightarrow> int \<Rightarrow> int \<Rightarrow> int \<Rightarrow> bool" where
  "isExamUnlocked d now participantId examId =
     (case findIndex (\<lambda>e. e_id e = examId) (db_exams d) of
        None \<Rightarrow> False
      | Some targetExamIndex \<Rightarrow>
          if targetExamIndex = 0 then True
          else unlockLoop d now participantId (take targetExamIndex (db_exams d)))"

subsection \<open>GET /exams\<close>

record exam_status =
  es_exam :: exam
  es_unlocked :: bool
  es_joined :: bool
  es_needsCode :: bool
  es_completed :: bool
  es_isLive :: bool

definition isLiveAt :: "int \<Rightarrow> exam \<Rightarrow> bool" where
  "isLiveAt nowTime ex =
     (case (e_startTime ex, e_endTime ex) of
        (Some start, Some end) \<Rightarrow> nowTime \<ge> start \<and> nowTime \<le> end
      | (Some start, None) \<Rightarrow> nowTime \<ge> start
      | (None, Some end) \<Rightarrow> nowTime \<le> end
      | (None, None) \<Rightarrow> True)"

text \<open>
  The loop over the exams. \<open>prev\<close> is \<open>exams[i - 1]\<close>, \<open>None\<close> when \<open>i === 0\<close>;
  \<open>previousUnlocked\<close> is the loop's variable of that name.
\<close>

fun examsLoop :: "db \<Rightarrow> int \<Rightarrow> int \<Rightarrow> int list \<Rightarrow> exam option \<Rightarrow> bool \<Rightarrow> exam list
    \<Rightarrow> exam_status list" where
  "examsLoop d now participantId joinedExamIds prev previousUnlocked [] = []"
| "examsLoop d now participantId joinedExamIds prev previousUnlocked (ex # rest) =
     (let isLive = isLiveAt now ex;
          unlocked =
            (case prev of
               None \<Rightarrow> True
             | Some prevExam \<Rightarrow>
                 if previousUnlocked then
                   (let prevQuestions = questionsOf d (e_id prevExam)
                    in if length prevQuestions > 0
                       then allCompleted d participantId prevQuestions \<or> timedOut now prevExam
                       else False)
                 else False);
          currentQuestions = questionsOf d (e_id ex);
          completed =
            (if length currentQuestions > 0 then allCompleted d participantId currentQuestions
             else False);
          joined = (e_id ex \<in> set joinedExamIds)
      in \<lparr>es_exam = ex, es_unlocked = unlocked, es_joined = joined, es_needsCode = (\<not> joined),
           es_completed = completed, es_isLive = isLive\<rparr>
         # examsLoop d now participantId joinedExamIds (Some ex) unlocked rest)"

subsection \<open>POST /login\<close>

text \<open>
  The loop that looks for the highest unlocked exam, from \<open>i = 1\<close> on: \<open>prevExam\<close> is
  \<open>exams[i - 1]\<close>, \<open>break\<close> ends it.
\<close>

fun loginLoop :: "db \<Rightarrow> int \<Rightarrow> exam \<Rightarrow> exam \<Rightarrow> exam list \<Rightarrow> exam" where
  "loginLoop d participantId prevExam activeExam [] = activeExam"
| "loginLoop d participantId prevExam activeExam (ex # rest) =
     (let prevQuestions = questionsOf d (e_id prevExam);
          prevSubmissions = scoredSubmissions d participantId (map q_id prevQuestions)
      in if length prevSubmissions = length prevQuestions \<and> length prevQuestions > 0
         then loginLoop d participantId ex ex rest
         else activeExam)"

section \<open>Routes\<close>

text \<open>
  The \<open>submission\<close> object of the response of POST /submit, without the \<open>id\<close> and
  \<open>createdAt\<close> that the database assigns.
\<close>

record submit_view =
  sv_score :: jsnum
  sv_totalTests :: nat
  sv_passedTests :: nat
  sv_status :: string
  sv_executionTime :: jsnum
  sv_testcaseResults :: "outcome list"

text \<open>
  What a handler sends: an error status with its message, or the success body of the
  route. \<open>LoginOk\<close> carries \<open>activeExamId\<close> and \<open>activeExamTitle\<close>.
\<close>

datatype response =
    Rejected nat string
  | LoginOk "int option" "string option"
  | ExamsOk "exam_status list"
  | RunOk "outcome list"
  | SubmitOk submit_view

definition login :: "db \<Rightarrow> string \<Rightarrow> response" where
  "login d participantId =
     (let normalizedParticipantId = trim participantId
      in if normalizedParticipantId = [] then Rejected 400 ''Team Name is required''
         else case find (\<lambda>p. p_participantId p = normalizedParticipantId) (db_participants d) of
                None \<Rightarrow> Rejected 401 ''Invalid credentials. Team name not found.''
              | Some participant \<Rightarrow>
                  (case db_exams d of
                     [] \<Rightarrow> LoginOk None None
                   | first # rest \<Rightarrow>
                       (let activeExam = loginLoop d (p_id participant) first first rest
                        in LoginOk (if e_id activeExam \<noteq> 0 then Some (e_id activeExam) else None)
                                   (if e_title activeExam \<noteq> [] then Some (e_title activeExam) else None))))"

definition getExams :: "db \<Rightarrow> int \<Rightarrow> int \<Rightarrow> response" where
  "getExams d now participantId =
     (case findParticipant d participantId of
        None \<Rightarrow> Rejected 500 ''Failed to fetch levels''
      | Some participant \<Rightarrow>
          ExamsOk (examsLoop d now participantId (p_exams participant) None True (db_exams d)))"

text \<open>
  The body of POST /run. An absent \<open>questionId\<close>, \<open>language\<close> or \<open>code\<close> is as falsy as
  \<open>0\<close> or the empty string, and is modelled by it; \<open>customInput\<close> and
  \<open>customExpectedOutput\<close> are \<open>None\<close> when \<open>undefined\<close> or \<open>null\<close>.
\<close>

record run_body =
  rb_questionId :: int
  rb_language :: string
  rb_code :: string
  rb_customInput :: "string option"
  rb_customExpectedOutput :: "string option"

definition run :: "sandbox \<Rightarrow> db \<Rightarrow> int \<Rightarrow> int \<Rightarrow> run_body \<Rightarrow> response \<times> call list" where
  "run sb d now participantId body =
     (if rb_questionId body = 0 \<or> rb_language body = [] \<or> rb_code body = []
      then (Rejected 400 ''Question ID, language, and code are required'', [])
      else case findQuestion d (rb_questionId body) of
        None \<Rightarrow> (Rejected 404 ''Question not found'', [])
      | Some question \<Rightarrow>
          if \<not> isExamUnlocked d now participantId (q_examId question)
          then (Rejected 403 ''Level locked'', [])
          else (case findParticipant d participantId of
            None \<Rightarrow> (Rejected 500 ''Failed to run code'', [])
          | Some participant \<Rightarrow>
              if \<not> list_ex (\<lambda>e. e = q_examId question) (p_exams participant)
              then (Rejected 403 ''Please enter the exam code to access this level.'', [])
              else
                (case (case rb_customInput body of
                         Some customInput \<Rightarrow>
                           (let normalizedCustomInput = trim customInput;
                                matchingTestcase =
                                  find (\<lambda>tc. trim (tc_input tc) = normalizedCustomInput)
                                    (q_testcases question);
                                expectedOutput =
                                  (case matchingTestcase of
                                     Some m \<Rightarrow> tc_expectedOutput m
                                   | None \<Rightarrow>
                                       (case rb_customExpectedOutput body of
                                          None \<Rightarrow> [] | Some e \<Rightarrow> orElse e []))
                            in Inr [\<lparr>tc_id = TcCustom, tc_input = customInput,
                                     tc_expectedOutput = expectedOutput, tc_visibility = None\<rparr>])
                       | None \<Rightarrow>
                           (let visibleTestcases =
                                  filter (\<lambda>tc. tc_visibility tc = Some VISIBLE) (q_testcases question)
                            in if length visibleTestcases = 0
                               then Inl (Rejected 400 ''No visible testcases available'')
                               else Inr visibleTestcases)) of
                   Inl rejection \<Rightarrow> (rejection, [])
                 | Inr testcasesToRun \<Rightarrow>
                     (case runTestcases (executeCode sb) (rb_code body) (rb_language body) testcasesToRun
                             (case q_timeLimit question of
                                None \<Rightarrow> 5000
                              | Some t \<Rightarrow> if t \<noteq> 0 then t * 1000 else 5000)
                             (case q_memoryLimit question of
                                None \<Rightarrow> ''256m''
                              | Some m \<Rightarrow> if m \<noteq> 0 then memTemplate (Some m) else ''256m'') of
                        (results, calls) \<Rightarrow> (RunOk results, calls)))))"

record submit_body =
  sm_questionId :: int
  sm_language :: string
  sm_code :: string

text \<open>
  POST /submit returns the response, the store after \<open>prisma.submission.create\<close>, and
  the requests sent to the sandbox. \<open>null * 1000\<close> is \<open>0\<close>.
\<close>

definition submit :: "sandbox \<Rightarrow> db \<Rightarrow> int \<Rightarrow> int \<Rightarrow> submit_body \<Rightarrow> response \<times> db \<times> call list" where
  "submit sb d now participantId body =
     (if sm_questionId body = 0 \<or> sm_language body = [] \<or> sm_code body = []
      then (Rejected 400 ''Question ID, language, and code are required'', d, [])
      else case findQuestion d (sm_questionId body) of
        None \<Rightarrow> (Rejected 404 ''Question not found'', d, [])
      | Some question \<Rightarrow>
          if \<not> isExamUnlocked d now participantId (q_examId question)
          then (Rejected 403 ''Level locked'', d, [])
          else (case findParticipant d participantId of
            None \<Rightarrow> (Rejected 500 ''Failed to submit code'', d, [])
          | Some participant \<Rightarrow>
              if \<not> list_ex (\<lambda>e. e = q_examId question) (p_exams participant)
              then (Rejected 403 ''Please enter the exam code to access this level.'', d, [])
              else if length (q_testcases question) = 0
              then (Rejected 400 ''No testcases available'', d, [])
              else
                (case runTestcases (executeCode sb) (sm_code body) (sm_language body)
                        (q_testcases question)
                        ((case q_timeLimit question of None \<Rightarrow> 0 | Some t \<Rightarrow> t) * 1000)
                        (memTemplate (q_memoryLimit question)) of
                   (results, calls) \<Rightarrow>
                     (let totalTests = length results;
                          passedTests = length (filter o_passed results);
                          scorePercentage =
                            jsDiv (lengthNum (filter o_passed results)) (lengthNum results);
                          score = jsMul scorePercentage (Num (q_maxMarks question));
                          avgExecutionTime =
                            jsDiv (foldl (\<lambda>sum r. jsAdd sum (durationNum (o_executionTime r)))
                                     (Num 0) results)
                                  (lengthNum results);
                          submission =
                            \<lparr>s_participantId = participantId,
                             s_questionId = sm_questionId body,
                             s_language = sm_language body,
                             s_code = sm_code body,
                             s_score = score,
                             s_totalTests = totalTests,
                             s_passedTests = passedTests,
                             s_status = ''COMPLETED'',
                             s_executionTime = avgExecutionTime\<rparr>;
                          visibleTestcaseResults =
                            filter (\<lambda>r. case find (\<lambda>t. tc_id t = o_testcaseId r) (q_testcases question) of
                                           None \<Rightarrow> False
                                         | Some tc \<Rightarrow> tc_visibility tc = Some VISIBLE)
                              results
                      in (SubmitOk \<lparr>sv_score = s_score submission,
                                    sv_totalTests = s_totalTests submission,
                                    sv_passedTests = s_passedTests submission,
                                    sv_status = s_status submission,
                                    sv_executionTime = s_executionTime submission,
                                    sv_testcaseResults = visibleTestcaseResults\<rparr>,
                          d\<lparr>db_submissions := db_submissions d @ [submission]\<rparr>,
                          calls)))))"

section \<open>Concrete inputs\<close>

text \<open>
  A sandbox with one Python runtime whose runs echo standard input to standard output
  (what the program \<open>print(input())\<close> does on one line of input), each call taking 7 ms.
\<close>

definition echoSandbox :: sandbox where
  "echoSandbox =
     \<lparr>sb_runtimes = Resolved [\<lparr>rt_language = ''python'', rt_version = ''3.10.0''\<rparr>],
      sb_execute = (\<lambda>req. Resolved \<lparr>xr_compile = None,
                      xr_run = Val \<lparr>rp_code = Some 0, rp_signal = [],
                                    rp_stdout = rq_stdin req, rp_stderr = []\<rparr>\<rparr>),
      sb_elapsed = (\<lambda>code language input. 7)\<rparr>"

text \<open>The same sandbox, a call taking 6 ms and one more for each character of input.\<close>

definition pacedSandbox :: sandbox where
  "pacedSandbox = echoSandbox\<lparr>sb_elapsed := (\<lambda>code language input. 6 + int (length input))\<rparr>"

text \<open>An executor whose call throws on the input \<open>boom\<close> and echoes any other input.\<close>

definition flakyExecutor :: executor where
  "flakyExecutor code language input timeLimit =
     (if input = ''boom'' then (Inl ''socket hang up'', [GetRuntimes])
      else (Inr \<lparr>res_output = input @ [CHR 0x0A], res_error = None, res_executionTime = 3\<rparr>,
            [GetRuntimes]))"

definition flakyTestcases :: "testcase list" where
  "flakyTestcases =
     [\<lparr>tc_id = TcNum 1, tc_input = ''5'', tc_expectedOutput = ''5'', tc_visibility = Some VISIBLE\<rparr>,
      \<lparr>tc_id = TcNum 2, tc_input = ''boom'', tc_expectedOutput = ''0'', tc_visibility = Some HIDDEN\<rparr>,
      \<lparr>tc_id = TcNum 3, tc_input = ''7'', tc_expectedOutput = ''8'', tc_visibility = Some HIDDEN\<rparr>]"

definition level :: "int \<Rightarrow> string \<Rightarrow> int option \<Rightarrow> exam" where
  "level i title endTime =
     \<lparr>e_id = i, e_code = ''JOIN'', e_title = title, e_startTime = None, e_endTime = endTime\<rparr>"

definition team7 :: participant where
  "team7 = \<lparr>p_id = 7, p_participantId = ''team7'', p_exams = [1, 2]\<rparr>"

text \<open>
  Question 10 of level 1, with a visible and a hidden testcase; question 20 of level 2.
  Both are solved by echoing the input.
\<close>

definition question10 :: "int option \<Rightarrow> int option \<Rightarrow> question" where
  "question10 timeLimit memoryLimit =
     \<lparr>q_id = 10, q_examId = 1, q_timeLimit = timeLimit, q_memoryLimit = memoryLimit,
      q_maxMarks = 20,
      q_testcases =
        [\<lparr>tc_id = TcNum 1, tc_input = ''1'', tc_expectedOutput = ''1'', tc_visibility = Some VISIBLE\<rparr>,
         \<lparr>tc_id = TcNum 2, tc_input = ''42'', tc_expectedOutput = ''SECRET'',
          tc_visibility = Some HIDDEN\<rparr>]\<rparr>"

definition question20 :: question where
  "question20 =
     \<lparr>q_id = 20, q_examId = 2, q_timeLimit = Some 2, q_memoryLimit = Some 256, q_maxMarks = 10,
      q_testcases =
        [\<lparr>tc_id = TcNum 3, tc_input = ''9'', tc_expectedOutput = ''9'', tc_visibility = Some VISIBLE\<rparr>]\<rparr>"

text \<open>Two levels with a question each, team 7 joined to both, and a submission history.\<close>

definition contestDb :: "int option \<Rightarrow> int option \<Rightarrow> submission list \<Rightarrow> db" where
  "contestDb timeLimit memoryLimit history =
     \<lparr>db_exams = [level 1 ''Level 1'' None, level 2 ''Level 2'' None],
      db_questions = [question10 timeLimit memoryLimit, question20],
      db_participants = [team7],
      db_submissions = history\<rparr>"

text \<open>A first level without questions, with the given end time, before level 2.\<close>

definition emptyLevelDb :: "int option \<Rightarrow> db" where
  "emptyLevelDb endTime =
     \<lparr>db_exams = [level 1 ''Level 1'' endTime, level 2 ''Level 2'' None],
      db_questions = [question20],
      db_participants = [team7],
      db_submissions = []\<rparr>"

text \<open>What POST /submit stores for team 7 when no testcase of question 10 passes.\<close>

definition zeroScoreSubmission :: submission where
  "zeroScoreSubmission =
     \<lparr>s_participantId = 7, s_questionId = 10, s_language = ''Python'', s_code = ''print(0)'',
      s_score = Num 0, s_totalTests = 2, s_passedTests = 0, s_status = ''COMPLETED'',
      s_executionTime = Num 7\<rparr>"

text \<open>
  A sandbox whose runtime listing fails with an HTTP error response that has no body
  (\<open>error.response.data\<close> is \<open>null\<close>).
\<close>

definition brokenSandbox :: sandbox where
  "brokenSandbox =
     \<lparr>sb_runtimes = Failed (HttpFailure Null ''Request failed with status code 502''),
      sb_execute = (\<lambda>req. Failed (HttpFailure Null ''Request failed with status code 502'')),
      sb_elapsed = (\<lambda>code language input. 7)\<rparr>"

text \<open>
  Question 30, worth 90 marks, with ten hidden testcases of which echoing the input
  passes seven; the store \<open>gradingDb\<close> has this question in its only level.
\<close>

definition hiddenTestcase :: "int \<Rightarrow> string \<Rightarrow> string \<Rightarrow> testcase" where
  "hiddenTestcase i inp expected =
     \<lparr>tc_id = TcNum i, tc_input = inp, tc_expectedOutput = expected, tc_visibility = Some HIDDEN\<rparr>"

definition question30 :: question where
  "question30 =
     \<lparr>q_id = 30, q_examId = 1, q_timeLimit = Some 2, q_memoryLimit = Some 256, q_maxMarks = 90,
      q_testcases =
        [hiddenTestcase 1 ''0'' ''0'', hiddenTestcase 2 ''1'' ''1'', hiddenTestcase 3 ''2'' ''2'',
         hiddenTestcase 4 ''3'' ''3'', hiddenTestcase 5 ''4'' ''4'', hiddenTestcase 6 ''5'' ''5'',
         hiddenTestcase 7 ''6'' ''6'', hiddenTestcase 8 ''7'' ''49'', hiddenTestcase 9 ''8'' ''64'',
         hiddenTestcase 10 ''10'' ''100'']\<rparr>"

definition gradingDb :: db where
  "gradingDb =
     \<lparr>db_exams = [level 1 ''Level 1'' None],
      db_questions = [question30],
      db_participants = [team7],
      db_submissions = []\<rparr>"

definition echoProgram :: string where
  "echoProgram = ''print(input())''"

definition runBody :: "int \<Rightarrow> string option \<Rightarrow> string option \<Rightarrow> run_body" where
  "runBody questionId customInput customExpectedOutput =
     \<lparr>rb_questionId = questionId, rb_language = ''Python'', rb_code = echoProgram,
      rb_customInput = customInput, rb_customExpectedOutput = customExpectedOutput\<rparr>"

definition submitBody :: "int \<Rightarrow> submit_body" where
  "submitBody questionId =
     \<lparr>sm_questionId = questionId, sm_language = ''Python'', sm_code = echoProgram\<rparr>"

text \<open>The PostExecute requests of a log.\<close>

fun execRequests :: "call list \<Rightarrow> exec_request list" where
  "execRequests [] = []"
| "execRequests (GetRuntimes # cs) = execRequests cs"
| "execRequests (PostExecute r # cs) = r # execRequests cs"

section \<open>Properties of the testcase runner\<close>

lemma runLoop_fst:
  "fst (runLoop ex c l t results sent tcs) = results @ map (\<lambda>tc. fst (runOne ex c l t tc)) tcs"
  by (induction tcs arbitrary: results sent) (auto split: prod.splits)

lemma runLoop_snd:
  "snd (runLoop ex c l t results sent tcs) = sent @ concat (map (\<lambda>tc. snd (runOne ex c l t tc)) tcs)"
  by (induction tcs arbitrary: results sent) (auto split: prod.splits)

lemma runOne_calls: "snd (runOne ex c l t tc) = snd (ex c l (tc_input tc) t)"
  by (auto simp: runOne_def Let_def split: prod.splits sum.splits)

text \<open>
  \<open>executeCode\<close> recovers every failure into a result, except an HTTP error response
  without a body: then its catch block throws.
\<close>

lemma caught_throws:
  "caught err elapsed = Inl msg \<Longrightarrow>
     (\<exists>m. err = HttpFailure Undefined m \<and> msg = cannotRead ''undefined'' ''message'') \<or>
     (\<exists>m. err = HttpFailure Null m \<and> msg = cannotRead ''null'' ''message'')"
  by (auto simp: caught_def split: failure.splits js.splits)

lemma executeCode_throws:
  "fst (executeCode sb c l i t) = Inl msg \<Longrightarrow>
     msg = cannotRead ''undefined'' ''message'' \<or> msg = cannotRead ''null'' ''message''"
  by (auto simp: executeCode_def classify_def Let_def
           split: reply.splits option.splits js.splits if_splits dest: caught_throws)

lemma runTestcases_length: "length (fst (runTestcases ex c l tcs t m)) = length tcs"
  by (simp add: runTestcases_def runLoop_fst)

lemma runTestcases_ignores_memoryLimit:
  "runTestcases ex c l tcs t m = runTestcases ex c l tcs t m'"
  by (simp add: runTestcases_def)

lemma executeCode_requests:
  "PostExecute r \<in> set (snd (executeCode sb c l i t)) \<Longrightarrow>
     rq_run_timeout r = (if t \<noteq> 0 then t else 5) * 1000 \<and> rq_compile_timeout r = 10000
     \<and> rq_stdin r = i \<and> rq_files r = [c]"
  by (auto simp: executeCode_def Let_def split: reply.splits option.splits)

lemma runTestcases_requests:
  assumes "PostExecute r \<in> set (snd (runTestcases (executeCode sb) c l tcs t m))"
  shows "rq_run_timeout r = (if t \<noteq> 0 then t else 5) * 1000 \<and> rq_compile_timeout r = 10000"
proof -
  from assms obtain i where "PostExecute r \<in> set (snd (executeCode sb c l i t))"
    by (auto simp: runTestcases_def runLoop_snd runOne_calls)
  then show ?thesis by (simp add: executeCode_requests)
qed

text \<open>
  Claim C9. \<open>runTestcases\<close> returns one outcome per input testcase, in the order of the
  input; an outcome of a call that resolved has \<open>passed\<close> true exactly when the trimmed
  actual output is the trimmed expected output; an outcome of a call that threw is
  \<open>passed = false\<close>, \<open>actualOutput = ''\<close>, \<open>error\<close> the message, \<open>executionTime = 0\<close>;
  and the executor is called for every testcase, also after one that threw. The function
  has no error result: every branch of the source returns the list.
\<close>

theorem runTestcases_outcomes:
  "length (fst (runTestcases ex c l tcs t m)) = length tcs \<and>
   (\<forall>i < length tcs.
      let tc = tcs ! i; out = fst (runTestcases ex c l tcs t m) ! i
      in o_testcaseId out = tc_id tc \<and>
         (case fst (ex c l (tc_input tc) t) of
            Inr r \<Rightarrow> o_passed out = (trim (res_output r) = trim (tc_expectedOutput tc))
                     \<and> o_actualOutput out = res_output r \<and> o_error out = res_error r
                     \<and> o_executionTime out = res_executionTime r
          | Inl msg \<Rightarrow> o_passed out = False \<and> o_actualOutput out = [] \<and> o_error out = Some msg
                     \<and> o_executionTime out = 0)) \<and>
   snd (runTestcases ex c l tcs t m) = concat (map (\<lambda>tc. snd (ex c l (tc_input tc) t)) tcs)"
proof (intro conjI allI impI)
  show "length (fst (runTestcases ex c l tcs t m)) = length tcs"
    by (simp add: runTestcases_def runLoop_fst)
next
  fix i assume "i < length tcs"
  then have "fst (runTestcases ex c l tcs t m) ! i = fst (runOne ex c l t (tcs ! i))"
    by (simp add: runTestcases_def runLoop_fst)
  then show "let tc = tcs ! i; out = fst (runTestcases ex c l tcs t m) ! i
      in o_testcaseId out = tc_id tc \<and>
         (case fst (ex c l (tc_input tc) t) of
            Inr r \<Rightarrow> o_passed out = (trim (res_output r) = trim (tc_expectedOutput tc))
                     \<and> o_actualOutput out = res_output r \<and> o_error out = res_error r
                     \<and> o_executionTime out = res_executionTime r
          | Inl msg \<Rightarrow> o_passed out = False \<and> o_actualOutput out = [] \<and> o_error out = Some msg
                     \<and> o_executionTime out = 0)"
    by (auto simp: runOne_def Let_def split: prod.splits sum.splits)
next
  show "snd (runTestcases ex c l tcs t m) = concat (map (\<lambda>tc. snd (ex c l (tc_input tc) t)) tcs)"
    by (simp add: runTestcases_def runLoop_snd runOne_calls)
qed

text \<open>
  Three testcases, of which the second makes the executor throw: it is recorded as
  failed with the message, and the third is still run.
\<close>

theorem runTestcases_outcomes_witness:
  "(1::nat) < length flakyTestcases \<and>
   length (fst (runTestcases flakyExecutor echoProgram ''Python'' flakyTestcases 2 ''256m'')) = 3 \<and>
   (let out = fst (runTestcases flakyExecutor echoProgram ''Python'' flakyTestcases 2 ''256m'') ! 1
    in o_testcaseId out = TcNum 2 \<and> o_passed out = False \<and> o_actualOutput out = []
       \<and> o_error out = Some ''socket hang up'' \<and> o_executionTime out = 0) \<and>
   snd (runTestcases flakyExecutor echoProgram ''Python'' flakyTestcases 2 ''256m'')
     = [GetRuntimes, GetRuntimes, GetRuntimes]"
proof -
  note T = runTestcases_outcomes [of flakyExecutor echoProgram "''Python''" flakyTestcases 2 "''256m''"]
  have len: "(1::nat) < length flakyTestcases"
    by (simp add: flakyTestcases_def)
  have thrown: "fst (flakyExecutor echoProgram ''Python'' (tc_input (flakyTestcases ! 1)) 2)
      = Inl ''socket hang up''"
    by (simp add: flakyTestcases_def flakyExecutor_def)
  have ident: "tc_id (flakyTestcases ! 1) = TcNum 2"
    by (simp add: flakyTestcases_def)
  from T have n: "length (fst (runTestcases flakyExecutor echoProgram ''Python'' flakyTestcases 2 ''256m'')) = 3"
    by (simp add: flakyTestcases_def)
  from T len thrown ident
  have mid: "let out = fst (runTestcases flakyExecutor echoProgram ''Python'' flakyTestcases 2 ''256m'') ! 1
    in o_testcaseId out = TcNum 2 \<and> o_passed out = False \<and> o_actualOutput out = []
       \<and> o_error out = Some ''socket hang up'' \<and> o_executionTime out = 0"
    by (auto simp: Let_def)
  from T have sent: "snd (runTestcases flakyExecutor echoProgram ''Python'' flakyTestcases 2 ''256m'')
     = [GetRuntimes, GetRuntimes, GetRuntimes]"
    by (simp add: flakyTestcases_def flakyExecutor_def)
  from len n mid sent show ?thesis by blast
qed

section \<open>Evaluation on a concrete contest\<close>

lemmas contest_defs =
  contestDb_def question10_def question20_def level_def team7_def echoSandbox_def echoProgram_def
  runBody_def submitBody_def

lemmas gate_defs =
  findQuestion_def findParticipant_def isExamUnlocked_def questionsOf_def allCompleted_def
  completedSubmissions_def timedOut_def

lemmas runner_defs =
  runTestcases_def runOne_def executeCode_def languageMap_def pistonText_def classify_def
  caught_def trim_def isWhiteSpace_def Let_def

text \<open>Roundings that the concrete runs need, each computed from the definition.\<close>

lemma roundD_small:
  "roundD 1 = Num 1" "roundD 7 = Num 7" "roundD 10 = Num 10" "roundD 14 = Num 14"
  "roundD (1 / 2) = Num (1 / 2)"
  by code_simp+

lemma contest_find10:
  "findQuestion (contestDb tlim mlim h) 10 = Some (question10 tlim mlim)"
  "q_examId (question10 tlim mlim) = 1"
  by (simp_all add: findQuestion_def contestDb_def question10_def)

lemma contest_find20:
  "findQuestion (contestDb tlim mlim h) 20 = Some question20"
  "q_examId question20 = 2"
  by (simp_all add: findQuestion_def contestDb_def question10_def question20_def)

lemma contest_gate10: "isExamUnlocked (contestDb tlim mlim h) now 7 1"
  by (simp add: contest_defs gate_defs)

lemma contest_gate20_locked: "\<not> isExamUnlocked (contestDb tlim mlim []) now 7 2"
  by (simp add: contest_defs gate_defs)

lemma contest_run_visible:
  "run echoSandbox (contestDb tlim mlim h) now 7 (runBody 10 None None) =
     (RunOk [\<lparr>o_testcaseId = TcNum 1, o_passed = True, o_input = ''1'', o_expectedOutput = ''1'',
              o_actualOutput = ''1'', o_error = None, o_executionTime = 7\<rparr>],
      [GetRuntimes,
       PostExecute \<lparr>rq_language = ''python'', rq_version = ''3.10.0'',
                    rq_files = [''print(input())''], rq_stdin = ''1'',
                    rq_compile_timeout = 10000,
                    rq_run_timeout =
                      (case tlim of None \<Rightarrow> 5000000
                       | Some t \<Rightarrow> if t \<noteq> 0 then t * 1000 * 1000 else 5000000)\<rparr>])"
  by (simp add: run_def contest_gate10) (simp add: contest_defs gate_defs runner_defs split: option.splits)

lemma contest_run_custom:
  "run echoSandbox (contestDb (Some 2) (Some 64) []) 0 7 (runBody 10 (Some ''42'') None) =
     (RunOk [\<lparr>o_testcaseId = TcCustom, o_passed = False, o_input = ''42'',
              o_expectedOutput = ''SECRET'', o_actualOutput = ''42'', o_error = None,
              o_executionTime = 7\<rparr>],
      [GetRuntimes,
       PostExecute \<lparr>rq_language = ''python'', rq_version = ''3.10.0'',
                    rq_files = [''print(input())''], rq_stdin = ''42'',
                    rq_compile_timeout = 10000, rq_run_timeout = 2000000\<rparr>])"
  by (simp add: run_def contest_gate10) (simp add: contest_defs gate_defs runner_defs)

lemma contest_run_spaced:
  "run echoSandbox (contestDb (Some 2) (Some 64) []) 0 7 (runBody 10 (Some '' 42'') (Some ''42'')) =
     (RunOk [\<lparr>o_testcaseId = TcCustom, o_passed = False, o_input = '' 42'',
              o_expectedOutput = ''SECRET'', o_actualOutput = '' 42'', o_error = None,
              o_executionTime = 7\<rparr>],
      [GetRuntimes,
       PostExecute \<lparr>rq_language = ''python'', rq_version = ''3.10.0'',
                    rq_files = [''print(input())''], rq_stdin = '' 42'',
                    rq_compile_timeout = 10000, rq_run_timeout = 2000000\<rparr>])"
  by (simp add: run_def contest_gate10) (simp add: contest_defs gate_defs runner_defs)

lemma contest_run_fresh:
  "run echoSandbox (contestDb (Some 2) (Some 64) []) 0 7 (runBody 10 (Some ''5'') (Some ''5'')) =
     (RunOk [\<lparr>o_testcaseId = TcCustom, o_passed = True, o_input = ''5'',
              o_expectedOutput = ''5'', o_actualOutput = ''5'', o_error = None,
              o_executionTime = 7\<rparr>],
      [GetRuntimes,
       PostExecute \<lparr>rq_language = ''python'', rq_version = ''3.10.0'',
                    rq_files = [''print(input())''], rq_stdin = ''5'',
                    rq_compile_timeout = 10000, rq_run_timeout = 2000000\<rparr>])"
  by (simp add: run_def contest_gate10) (simp add: contest_defs gate_defs runner_defs orElse_def)

lemma contest_submit10:
  "submit echoSandbox (contestDb tlim mlim []) now 7 (submitBody 10) =
     (SubmitOk \<lparr>sv_score = Num 10, sv_totalTests = 2, sv_passedTests = 1, sv_status = ''COMPLETED'',
                sv_executionTime = Num 7,
                sv_testcaseResults =
                  [\<lparr>o_testcaseId = TcNum 1, o_passed = True, o_input = ''1'',
                    o_expectedOutput = ''1'', o_actualOutput = ''1'', o_error = None,
                    o_executionTime = 7\<rparr>]\<rparr>,
      contestDb tlim mlim
        [\<lparr>s_participantId = 7, s_questionId = 10, s_language = ''Python'',
          s_code = ''print(input())'', s_score = Num 10, s_totalTests = 2, s_passedTests = 1,
          s_status = ''COMPLETED'', s_executionTime = Num 7\<rparr>],
      [GetRuntimes,
       PostExecute \<lparr>rq_language = ''python'', rq_version = ''3.10.0'',
                    rq_files = [''print(input())''], rq_stdin = ''1'',
                    rq_compile_timeout = 10000,
                    rq_run_timeout =
                      (case tlim of None \<Rightarrow> 5000
                       | Some t \<Rightarrow> if t \<noteq> 0 then t * 1000 * 1000 else 5000)\<rparr>,
       GetRuntimes,
       PostExecute \<lparr>rq_language = ''python'', rq_version = ''3.10.0'',
                    rq_files = [''print(input())''], rq_stdin = ''42'',
                    rq_compile_timeout = 10000,
                    rq_run_timeout =
                      (case tlim of None \<Rightarrow> 5000
                       | Some t \<Rightarrow> if t \<noteq> 0 then t * 1000 * 1000 else 5000)\<rparr>])"
  by (simp add: submit_def contest_gate10)
     (simp add: contest_defs gate_defs runner_defs lengthNum_def durationNum_def roundD_small
        split: option.splits)

lemma emptyLevel_listing:
  "getExams (emptyLevelDb endTime) now 7 =
     ExamsOk [\<lparr>es_exam = level 1 ''Level 1'' endTime, es_unlocked = True, es_joined = True,
               es_needsCode = False, es_completed = False, es_isLive = isLiveAt now (level 1 ''Level 1'' endTime)\<rparr>,
              \<lparr>es_exam = level 2 ''Level 2'' None, es_unlocked = False, es_joined = True,
               es_needsCode = False, es_completed = False, es_isLive = True\<rparr>]"
  by (simp add: emptyLevelDb_def getExams_def findParticipant_def team7_def)
     (simp add: level_def question20_def questionsOf_def allCompleted_def completedSubmissions_def
        isLiveAt_def Let_def)

lemma emptyLevel_gate: "isExamUnlocked (emptyLevelDb endTime) now 7 2"
  by (simp add: emptyLevelDb_def level_def question20_def gate_defs)

lemma emptyLevel_find20s:
  "findQuestion (emptyLevelDb endTime) (sm_questionId (submitBody 20)) = Some question20"
  by (simp add: findQuestion_def emptyLevelDb_def submitBody_def question20_def)

lemma emptyLevel_find20:
  "findQuestion (emptyLevelDb endTime) (rb_questionId (runBody 20 ci ce)) = Some question20"
  "q_examId question20 = 2"
  by (simp_all add: findQuestion_def emptyLevelDb_def runBody_def question20_def)

lemma zeroScore_gate: "isExamUnlocked (contestDb tlim mlim [zeroScoreSubmission]) now 7 2"
  by (simp add: contest_defs gate_defs zeroScoreSubmission_def)

section \<open>Hidden testcases\<close>

lemma submit_results_visible:
  assumes "submit sb d now participantId body = (SubmitOk v, d', calls)"
      and "findQuestion d (sm_questionId body) = Some question"
      and "r \<in> set (sv_testcaseResults v)"
  shows "\<exists>tc \<in> set (q_testcases question). tc_id tc = o_testcaseId r \<and> tc_visibility tc = Some VISIBLE"
proof -
  from assms(1,2) have "set (sv_testcaseResults v) \<subseteq>
      {r. case find (\<lambda>t. tc_id t = o_testcaseId r) (q_testcases question) of
            None \<Rightarrow> False
          | Some tc \<Rightarrow> tc_visibility tc = Some VISIBLE}"
    by (simp add: submit_def Let_def case_prod_beta split: option.splits if_splits) auto
  with assms(3) obtain tc
    where "find (\<lambda>t. tc_id t = o_testcaseId r) (q_testcases question) = Some tc"
      and "tc_visibility tc = Some VISIBLE"
    by (auto split: option.split_asm)
  then show ?thesis by (auto simp: find_Some_iff)
qed

text \<open>
  Claim C1 fails on POST /run. Question 10 has a hidden testcase with input \<open>42\<close> and
  expected output \<open>SECRET\<close>. A run request with custom input \<open>42\<close> is answered with
  an outcome whose \<open>expectedOutput\<close> field is that hidden expected output.
\<close>

theorem run_custom_returns_hidden_expected:
  "tc_visibility (q_testcases (question10 (Some 2) (Some 64)) ! 1) = Some HIDDEN \<and>
   tc_input (q_testcases (question10 (Some 2) (Some 64)) ! 1) = ''42'' \<and>
   tc_expectedOutput (q_testcases (question10 (Some 2) (Some 64)) ! 1) = ''SECRET'' \<and>
   fst (run echoSandbox (contestDb (Some 2) (Some 64) []) 0 7 (runBody 10 (Some ''42'') None)) =
     RunOk [\<lparr>o_testcaseId = TcCustom, o_passed = False, o_input = ''42'',
             o_expectedOutput = ''SECRET'', o_actualOutput = ''42'', o_error = None,
             o_executionTime = 7\<rparr>]"
  by (simp add: contest_run_custom) (simp add: question10_def)

section \<open>Deadlines and the memory limit\<close>

lemma run_requests:
  assumes "findQuestion d (rb_questionId body) = Some question"
      and "PostExecute r \<in> set (snd (run sb d now participantId body))"
  shows "rq_run_timeout r =
           (case q_timeLimit question of
              None \<Rightarrow> 5000000
            | Some t \<Rightarrow> if t \<noteq> 0 then t * 1000000 else 5000000)
         \<and> rq_compile_timeout r = 10000"
proof -
  define T where "T = (case q_timeLimit question of
                         None \<Rightarrow> 5000 | Some t \<Rightarrow> if t \<noteq> 0 then t * 1000 else (5000::int))"
  have "snd (run sb d now participantId body) = [] \<or>
        (\<exists>tcs m. snd (run sb d now participantId body) =
           snd (runTestcases (executeCode sb) (rb_code body) (rb_language body) tcs T m))"
    unfolding T_def using assms(1)
    by (simp add: run_def Let_def case_prod_beta split: option.split sum.split) blast
  with assms(2) obtain tcs m
    where "PostExecute r \<in> set (snd (runTestcases (executeCode sb) (rb_code body) (rb_language body) tcs T m))"
    by auto
  from runTestcases_requests [OF this] show ?thesis
    by (simp add: T_def split: option.splits)
qed

lemma submit_requests:
  assumes "findQuestion d (sm_questionId body) = Some question"
      and "PostExecute r \<in> set (snd (snd (submit sb d now participantId body)))"
  shows "rq_run_timeout r =
           (case q_timeLimit question of
              None \<Rightarrow> 5000
            | Some t \<Rightarrow> if t \<noteq> 0 then t * 1000000 else 5000)
         \<and> rq_compile_timeout r = 10000"
proof -
  define T where "T = (case q_timeLimit question of None \<Rightarrow> 0 | Some t \<Rightarrow> t) * (1000::int)"
  have "snd (snd (submit sb d now participantId body)) = [] \<or>
        (\<exists>m. snd (snd (submit sb d now participantId body)) =
           snd (runTestcases (executeCode sb) (sm_code body) (sm_language body) (q_testcases question) T m))"
    unfolding T_def using assms(1)
    by (simp add: submit_def Let_def case_prod_beta split: option.split) blast
  with assms(2) obtain m
    where "PostExecute r \<in> set (snd (runTestcases (executeCode sb) (sm_code body) (sm_language body)
                                      (q_testcases question) T m))"
    by auto
  from runTestcases_requests [OF this] show ?thesis
    by (simp add: T_def split: option.splits)
qed

text \<open>
  Claim C2 fails on both paths. The routes pass \<open>timeLimit * 1000\<close> to \<open>runTestcases\<close>
  and \<open>executeCode\<close> multiplies by 1000 again: for a time limit of 2 seconds the
  sandbox receives \<open>run_timeout = 2000000\<close>, not 2000. Without a time limit POST /run
  sends 5000000 and POST /submit sends 5000. The compile deadline is 10000.
\<close>

theorem run_timeout_converted_twice:
  "q_timeLimit (question10 (Some 2) (Some 64)) = Some 2 \<and>
   map rq_run_timeout (execRequests (snd
     (run echoSandbox (contestDb (Some 2) (Some 64) []) 0 7 (runBody 10 None None)))) = [2000000] \<and>
   map rq_run_timeout (execRequests (snd (snd
     (submit echoSandbox (contestDb (Some 2) (Some 64) []) 0 7 (submitBody 10))))) = [2000000, 2000000] \<and>
   map rq_run_timeout (execRequests (snd
     (run echoSandbox (contestDb None (Some 64) []) 0 7 (runBody 10 None None)))) = [5000000] \<and>
   map rq_run_timeout (execRequests (snd (snd
     (submit echoSandbox (contestDb None (Some 64) []) 0 7 (submitBody 10))))) = [5000, 5000] \<and>
   map rq_compile_timeout (execRequests (snd
     (run echoSandbox (contestDb (Some 2) (Some 64) []) 0 7 (runBody 10 None None)))) = [10000]"
  by (simp add: contest_run_visible contest_submit10) (simp add: question10_def)

text \<open>
  Claim C5 fails. Two stores that differ only in the memory limit of question 10
  (64 against 512) give the same response and the same requests to the sandbox, on the
  run path and on the submit path; the request has no field for a memory limit.
\<close>

theorem memory_limit_never_sent:
  "q_memoryLimit (question10 (Some 2) (Some 64)) \<noteq> q_memoryLimit (question10 (Some 2) (Some 512)) \<and>
   run echoSandbox (contestDb (Some 2) (Some 64) []) 0 7 (runBody 10 None None)
     = run echoSandbox (contestDb (Some 2) (Some 512) []) 0 7 (runBody 10 None None) \<and>
   snd (run echoSandbox (contestDb (Some 2) (Some 64) []) 0 7 (runBody 10 None None)) =
     [GetRuntimes,
      PostExecute \<lparr>rq_language = ''python'', rq_version = ''3.10.0'',
                   rq_files = [''print(input())''], rq_stdin = ''1'',
                   rq_compile_timeout = 10000, rq_run_timeout = 2000000\<rparr>] \<and>
   fst (submit echoSandbox (contestDb (Some 2) (Some 64) []) 0 7 (submitBody 10))
     = fst (submit echoSandbox (contestDb (Some 2) (Some 512) []) 0 7 (submitBody 10)) \<and>
   snd (snd (submit echoSandbox (contestDb (Some 2) (Some 64) []) 0 7 (submitBody 10)))
     = snd (snd (submit echoSandbox (contestDb (Some 2) (Some 512) []) 0 7 (submitBody 10)))"
  by (simp add: contest_run_visible contest_submit10) (simp add: question10_def)

section \<open>Progression\<close>

lemma examsLoop_length: "length (examsLoop d now pid js prev pu xs) = length xs"
  by (induction xs arbitrary: prev pu) (simp_all add: Let_def)

lemma examsLoop_completed:
  "i < length xs \<Longrightarrow>
   es_completed (examsLoop d now pid js prev pu xs ! i) =
     (questionsOf d (e_id (xs ! i)) \<noteq> [] \<and> allCompleted d pid (questionsOf d (e_id (xs ! i))))"
proof (induction xs arbitrary: prev pu i)
  case Nil
  then show ?case by simp
next
  case (Cons x xs)
  then show ?case by (cases i) (simp_all add: Let_def)
qed

lemma examsLoop_unlocked:
  "i < length xs \<Longrightarrow>
   es_unlocked (examsLoop d now pid js prev pu xs ! i) =
     ((case prev of
         None \<Rightarrow> True
       | Some p \<Rightarrow> pu \<and> questionsOf d (e_id p) \<noteq> []
                    \<and> (allCompleted d pid (questionsOf d (e_id p)) \<or> timedOut now p)) \<and>
      list_all (\<lambda>e. questionsOf d (e_id e) \<noteq> []
                     \<and> (allCompleted d pid (questionsOf d (e_id e)) \<or> timedOut now e))
        (take i xs))"
proof (induction xs arbitrary: prev pu i)
  case Nil
  then show ?case by simp
next
  case (Cons x xs)
  show ?case
  proof (cases i)
    case 0
    then show ?thesis by (auto simp: Let_def split: option.splits)
  next
    case (Suc j)
    with Cons.prems have "j < length xs" by simp
    from Cons.IH [OF this] Suc show ?thesis
      by (auto simp: Let_def split: option.splits)
  qed
qed

lemma unlockLoop_all:
  "unlockLoop d now pid xs =
     list_all (\<lambda>e. allCompleted d pid (questionsOf d (e_id e)) \<or> timedOut now e
                    \<or> questionsOf d (e_id e) = []) xs"
  by (induction xs) (auto simp: Let_def)

lemma findIndex_distinct:
  "distinct (map f xs) \<Longrightarrow> i < length xs \<Longrightarrow> findIndex (\<lambda>e. f e = f (xs ! i)) xs = Some i"
proof (induction xs arbitrary: i)
  case Nil
  then show ?case by simp
next
  case (Cons x xs)
  show ?case
  proof (cases i)
    case 0
    then show ?thesis by simp
  next
    case (Suc j)
    with Cons.prems have j: "j < length xs" and "distinct (map f xs)" and "f x \<notin> f ` set xs"
      by simp_all
    then have "f x \<noteq> f (xs ! j)" by (metis imageI nth_mem)
    with Cons.IH [OF \<open>distinct (map f xs)\<close> j] Suc show ?thesis by simp
  qed
qed

lemma isExamUnlocked_nth:
  assumes "distinct (map e_id (db_exams d))" and "i < length (db_exams d)"
  shows "isExamUnlocked d now pid (e_id (db_exams d ! i)) =
           list_all (\<lambda>e. allCompleted d pid (questionsOf d (e_id e)) \<or> timedOut now e
                          \<or> questionsOf d (e_id e) = [])
             (take i (db_exams d))"
  using findIndex_distinct [OF assms]
  by (simp add: isExamUnlocked_def unlockLoop_all)

lemma unlock_agree_when_nonempty:
  assumes "distinct (map e_id (db_exams d))" and "i < length (db_exams d)"
      and "\<forall>e \<in> set (db_exams d). questionsOf d (e_id e) \<noteq> []"
  shows "es_unlocked (examsLoop d now pid js None True (db_exams d) ! i) =
           isExamUnlocked d now pid (e_id (db_exams d ! i))"
proof -
  have "set (take i (db_exams d)) \<subseteq> set (db_exams d)" by (rule set_take_subset)
  with assms(3) have "\<forall>e \<in> set (take i (db_exams d)). questionsOf d (e_id e) \<noteq> []" by blast
  then show ?thesis
    unfolding isExamUnlocked_nth [OF assms(1,2)] examsLoop_unlocked [OF assms(2)]
    by (auto simp: list_all_iff)
qed

text \<open>
  What each computation does with a level that has no questions (exam ids distinct):
  GET /exams never reports that level as completed and reports the next level as locked;
  \<open>isExamUnlocked\<close> holds for the next level exactly when it holds for the level
  itself. The end time of the level plays no role in either, and the two computations
  contradict each other on the next level whenever the level itself is unlocked.
\<close>

lemma zero_question_level:
  assumes "Suc k < length (db_exams d)"
      and "questionsOf d (e_id (db_exams d ! k)) = []"
      and "distinct (map e_id (db_exams d))"
  shows "\<not> es_completed (examsLoop d now pid js None True (db_exams d) ! k) \<and>
         \<not> es_unlocked (examsLoop d now pid js None True (db_exams d) ! Suc k) \<and>
         isExamUnlocked d now pid (e_id (db_exams d ! Suc k)) =
           isExamUnlocked d now pid (e_id (db_exams d ! k))"
proof (intro conjI)
  from assms(1) have k: "k < length (db_exams d)" by simp
  from k assms(2) show "\<not> es_completed (examsLoop d now pid js None True (db_exams d) ! k)"
    by (simp add: examsLoop_completed)
  have "take (Suc k) (db_exams d) = take k (db_exams d) @ [db_exams d ! k]"
    using k by (rule take_Suc_conv_app_nth)
  with assms(2) show "\<not> es_unlocked (examsLoop d now pid js None True (db_exams d) ! Suc k)"
    by (simp add: examsLoop_unlocked [OF assms(1)])
  from \<open>take (Suc k) (db_exams d) = take k (db_exams d) @ [db_exams d ! k]\<close> assms(2)
  show "isExamUnlocked d now pid (e_id (db_exams d ! Suc k)) =
          isExamUnlocked d now pid (e_id (db_exams d ! k))"
    by (simp add: isExamUnlocked_nth [OF assms(3) assms(1)] isExamUnlocked_nth [OF assms(3) k])
qed

lemma zero_question_level_expired:
  "Suc 0 < length (db_exams (emptyLevelDb (Some 100))) \<and>
   questionsOf (emptyLevelDb (Some 100)) (e_id (db_exams (emptyLevelDb (Some 100)) ! 0)) = [] \<and>
   distinct (map e_id (db_exams (emptyLevelDb (Some 100)))) \<and>
   timedOut 200 (db_exams (emptyLevelDb (Some 100)) ! 0) \<and>
   \<not> es_completed (examsLoop (emptyLevelDb (Some 100)) 200 7 [1, 2] None True
                     (db_exams (emptyLevelDb (Some 100))) ! 0) \<and>
   \<not> es_unlocked (examsLoop (emptyLevelDb (Some 100)) 200 7 [1, 2] None True
                    (db_exams (emptyLevelDb (Some 100))) ! Suc 0) \<and>
   isExamUnlocked (emptyLevelDb (Some 100)) 200 7 (e_id (db_exams (emptyLevelDb (Some 100)) ! Suc 0)) =
     isExamUnlocked (emptyLevelDb (Some 100)) 200 7 (e_id (db_exams (emptyLevelDb (Some 100)) ! 0))"
proof -
  have len: "Suc 0 < length (db_exams (emptyLevelDb (Some 100)))"
    by (simp add: emptyLevelDb_def)
  have empty: "questionsOf (emptyLevelDb (Some 100)) (e_id (db_exams (emptyLevelDb (Some 100)) ! 0)) = []"
    by (simp add: emptyLevelDb_def level_def question20_def questionsOf_def)
  have ids: "distinct (map e_id (db_exams (emptyLevelDb (Some 100))))"
    by (simp add: emptyLevelDb_def level_def)
  have late: "timedOut 200 (db_exams (emptyLevelDb (Some 100)) ! 0)"
    by (simp add: emptyLevelDb_def level_def timedOut_def)
  from zero_question_level [OF len empty ids, of 200 7 "[1, 2]"] len empty ids late
  show ?thesis by blast
qed

text \<open>
  Claim C3 fails on both computations, which treat a level without questions in opposite
  ways. In GET /exams, level 2 stays locked although level 1, which has no questions, is
  unlocked and its end time (100) has passed at time 200. In \<open>isExamUnlocked\<close>, level 2
  is unlocked although level 1, which has no questions, has no end time at all.
\<close>

theorem zero_question_level_unlock:
  "questionsOf (emptyLevelDb (Some 100)) 1 = [] \<and>
   timedOut 200 (level 1 ''Level 1'' (Some 100)) \<and>
   getExams (emptyLevelDb (Some 100)) 200 7 =
     ExamsOk [\<lparr>es_exam = level 1 ''Level 1'' (Some 100), es_unlocked = True, es_joined = True,
               es_needsCode = False, es_completed = False, es_isLive = False\<rparr>,
              \<lparr>es_exam = level 2 ''Level 2'' None, es_unlocked = False, es_joined = True,
               es_needsCode = False, es_completed = False, es_isLive = True\<rparr>] \<and>
   questionsOf (emptyLevelDb None) 1 = [] \<and>
   \<not> timedOut 0 (level 1 ''Level 1'' None) \<and>
   isExamUnlocked (emptyLevelDb None) 0 7 1 \<and>
   isExamUnlocked (emptyLevelDb None) 0 7 2"
proof -
  have "questionsOf (emptyLevelDb (Some 100)) 1 = []" "questionsOf (emptyLevelDb None) 1 = []"
    by (simp_all add: emptyLevelDb_def question20_def questionsOf_def)
  moreover have "timedOut 200 (level 1 ''Level 1'' (Some 100))" "\<not> timedOut 0 (level 1 ''Level 1'' None)"
    by (simp_all add: timedOut_def level_def)
  moreover have "\<not> isLiveAt 200 (level 1 ''Level 1'' (Some 100))"
    by (simp add: isLiveAt_def level_def)
  moreover have "isExamUnlocked (emptyLevelDb None) 0 7 1"
    by (simp add: emptyLevelDb_def level_def isExamUnlocked_def)
  ultimately show ?thesis
    by (simp add: emptyLevel_listing emptyLevel_gate)
qed

text \<open>
  Claim C10 fails. With a first level that has no questions, GET /exams reports level 2
  as locked while \<open>isExamUnlocked\<close> holds for level 2, so that POST /run executes code
  for a question of the level that the listing shows as locked.
\<close>

theorem listing_and_gate_disagree:
  "questionsOf (emptyLevelDb None) 1 = [] \<and>
   getExams (emptyLevelDb None) 0 7 =
     ExamsOk [\<lparr>es_exam = level 1 ''Level 1'' None, es_unlocked = True, es_joined = True,
               es_needsCode = False, es_completed = False, es_isLive = True\<rparr>,
              \<lparr>es_exam = level 2 ''Level 2'' None, es_unlocked = False, es_joined = True,
               es_needsCode = False, es_completed = False, es_isLive = True\<rparr>] \<and>
   isExamUnlocked (emptyLevelDb None) 0 7 2 \<and>
   fst (run echoSandbox (emptyLevelDb None) 0 7 (runBody 20 None None)) =
     RunOk [\<lparr>o_testcaseId = TcNum 3, o_passed = True, o_input = ''9'', o_expectedOutput = ''9'',
             o_actualOutput = ''9'', o_error = None, o_executionTime = 7\<rparr>]"
proof -
  have "questionsOf (emptyLevelDb None) 1 = []"
    by (simp add: emptyLevelDb_def question20_def questionsOf_def)
  moreover have "isLiveAt 0 (level 1 ''Level 1'' None)"
    by (simp add: isLiveAt_def level_def)
  moreover have "fst (run echoSandbox (emptyLevelDb None) 0 7 (runBody 20 None None)) =
     RunOk [\<lparr>o_testcaseId = TcNum 3, o_passed = True, o_input = ''9'', o_expectedOutput = ''9'',
             o_actualOutput = ''9'', o_error = None, o_executionTime = 7\<rparr>]"
    by (simp add: run_def emptyLevel_find20 emptyLevel_gate)
       (simp add: runBody_def echoProgram_def question20_def emptyLevelDb_def findParticipant_def
          team7_def echoSandbox_def runner_defs)
  ultimately show ?thesis
    by (simp add: emptyLevel_listing emptyLevel_gate)
qed

text \<open>
  Claim C4 fails at login. Team 7 has a COMPLETED submission with score 0 for the only
  question of level 1. GET /exams and \<open>isExamUnlocked\<close> count the question as completed
  and unlock level 2; POST /login, whose query filters on a positive score, stops at
  level 1.
\<close>

theorem login_filters_on_positive_score:
  "s_status zeroScoreSubmission = ''COMPLETED'' \<and> s_score zeroScoreSubmission = Num 0 \<and>
   login (contestDb None None [zeroScoreSubmission]) ''team7'' = LoginOk (Some 1) (Some ''Level 1'') \<and>
   isExamUnlocked (contestDb None None [zeroScoreSubmission]) 0 7 2 \<and>
   getExams (contestDb None None [zeroScoreSubmission]) 0 7 =
     ExamsOk [\<lparr>es_exam = level 1 ''Level 1'' None, es_unlocked = True, es_joined = True,
               es_needsCode = False, es_completed = True, es_isLive = True\<rparr>,
              \<lparr>es_exam = level 2 ''Level 2'' None, es_unlocked = True, es_joined = True,
               es_needsCode = False, es_completed = False, es_isLive = True\<rparr>]"
proof -
  have "login (contestDb None None [zeroScoreSubmission]) ''team7'' = LoginOk (Some 1) (Some ''Level 1'')"
    by (simp add: login_def contest_defs zeroScoreSubmission_def trim_def isWhiteSpace_def
          questionsOf_def scoredSubmissions_def)
  moreover have "getExams (contestDb None None [zeroScoreSubmission]) 0 7 =
     ExamsOk [\<lparr>es_exam = level 1 ''Level 1'' None, es_unlocked = True, es_joined = True,
               es_needsCode = False, es_completed = True, es_isLive = True\<rparr>,
              \<lparr>es_exam = level 2 ''Level 2'' None, es_unlocked = True, es_joined = True,
               es_needsCode = False, es_completed = False, es_isLive = True\<rparr>]"
    by (simp add: contestDb_def getExams_def findParticipant_def team7_def)
       (simp add: level_def question10_def question20_def questionsOf_def allCompleted_def
          completedSubmissions_def zeroScoreSubmission_def isLiveAt_def timedOut_def Let_def)
  ultimately show ?thesis
    by (simp add: zeroScore_gate) (simp add: zeroScoreSubmission_def)
qed

section \<open>Custom input on POST /run\<close>

lemma orElse_empty: "orElse e [] = e"
  by (simp add: orElse_def)

lemma run_custom_results:
  assumes "run sb d now participantId body = (RunOk results, calls)"
      and "findQuestion d (rb_questionId body) = Some question"
      and "rb_customInput body = Some customInput"
  shows "results =
           fst (runTestcases (executeCode sb) (rb_code body) (rb_language body)
             [\<lparr>tc_id = TcCustom, tc_input = customInput,
               tc_expectedOutput =
                 (case find (\<lambda>tc. trim (tc_input tc) = trim customInput) (q_testcases question) of
                    Some m \<Rightarrow> tc_expectedOutput m
                  | None \<Rightarrow> (case rb_customExpectedOutput body of None \<Rightarrow> [] | Some e \<Rightarrow> orElse e [])),
               tc_visibility = None\<rparr>]
             (case q_timeLimit question of
                None \<Rightarrow> 5000
              | Some t \<Rightarrow> if t \<noteq> 0 then t * 1000 else 5000)
             (case q_memoryLimit question of
                None \<Rightarrow> ''256m''
              | Some m \<Rightarrow> if m \<noteq> 0 then memTemplate (Some m) else ''256m''))"
proof -
  from assms(1,2) have "isExamUnlocked d now participantId (q_examId question)"
    by (auto simp: run_def split: if_splits)
  moreover from assms(1,2) obtain participant
    where "findParticipant d participantId = Some participant"
      and "list_ex (\<lambda>e. e = q_examId question) (p_exams participant)"
    by (auto simp: run_def split: if_splits option.split_asm)
  moreover from assms(1) have "rb_questionId body \<noteq> 0" "rb_language body \<noteq> []" "rb_code body \<noteq> []"
    by (auto simp: run_def split: if_splits)
  ultimately show ?thesis
    using assms by (auto simp: run_def Let_def case_prod_beta)
qed

text \<open>
  When a testcase matches the custom input, the caller's expected output has no effect
  on what POST /run does.
\<close>

lemma run_custom_ignores_supplied:
  assumes "find (\<lambda>tc. trim (tc_input tc) = trim customInput) (q_testcases question) = Some m"
      and "findQuestion d (rb_questionId body) = Some question"
      and "rb_customInput body = Some customInput"
  shows "run sb d now participantId (body\<lparr>rb_customExpectedOutput := e\<rparr>) = run sb d now participantId body"
proof (cases "findParticipant d participantId")
  case None
  with assms show ?thesis by (simp add: run_def)
next
  case (Some participant)
  with assms show ?thesis by (simp add: run_def Let_def)
qed

text \<open>
  Claim C6. A successful run request with custom input returns one outcome, that of the
  testcase runner for the custom input and an expected output chosen as follows. If the
  trimmed custom input equals the trimmed input of some testcase of the question (of any
  visibility), it is the expected output of the first such testcase, and the response is
  the same whatever expected output the caller supplies; if no testcase matches, it is
  the caller's expected output, or the empty string when there is none. The outcome's
  \<open>passed\<close> compares the trimmed output of the execution with that trimmed expected
  output; when the execution call throws, \<open>passed\<close> is false.
\<close>

theorem run_custom_expected:
  assumes "run sb d now participantId body = (RunOk results, calls)"
      and "findQuestion d (rb_questionId body) = Some question"
      and "rb_customInput body = Some customInput"
  shows "\<exists>out. results = [out] \<and> o_input out = customInput
           \<and> (case fst (executeCode sb (rb_code body) (rb_language body) customInput
                          (case q_timeLimit question of
                             None \<Rightarrow> 5000
                           | Some t \<Rightarrow> if t \<noteq> 0 then t * 1000 else 5000)) of
                 Inr r \<Rightarrow> o_actualOutput out = res_output r
                          \<and> o_passed out = (trim (res_output r) = trim (o_expectedOutput out))
               | Inl msg \<Rightarrow> o_actualOutput out = [] \<and> \<not> o_passed out \<and> o_error out = Some msg)
           \<and> ((\<exists>tc \<in> set (q_testcases question). trim (tc_input tc) = trim customInput) \<longrightarrow>
                (\<exists>m \<in> set (q_testcases question).
                    find (\<lambda>tc. trim (tc_input tc) = trim customInput) (q_testcases question) = Some m
                    \<and> trim (tc_input m) = trim customInput
                    \<and> o_expectedOutput out = tc_expectedOutput m
                    \<and> (\<forall>e. run sb d now participantId (body\<lparr>rb_customExpectedOutput := e\<rparr>)
                              = run sb d now participantId body)))
           \<and> ((\<forall>tc \<in> set (q_testcases question). trim (tc_input tc) \<noteq> trim customInput) \<longrightarrow>
                o_expectedOutput out =
                  (case rb_customExpectedOutput body of None \<Rightarrow> [] | Some e \<Rightarrow> e))"
proof -
  define expected where "expected =
     (case find (\<lambda>tc. trim (tc_input tc) = trim customInput) (q_testcases question) of
        Some m \<Rightarrow> tc_expectedOutput m
      | None \<Rightarrow> (case rb_customExpectedOutput body of None \<Rightarrow> [] | Some e \<Rightarrow> orElse e []))"
  define custom where "custom =
     \<lparr>tc_id = TcCustom, tc_input = customInput, tc_expectedOutput = expected, tc_visibility = None\<rparr>"
  define T where "T = (case q_timeLimit question of
                         None \<Rightarrow> 5000 | Some t \<Rightarrow> if t \<noteq> 0 then t * 1000 else (5000::int))"
  from run_custom_results [OF assms] obtain m
    where "results = fst (runTestcases (executeCode sb) (rb_code body) (rb_language body) [custom] T m)"
    unfolding custom_def expected_def T_def by blast
  then have res: "results = [fst (runOne (executeCode sb) (rb_code body) (rb_language body) T custom)]"
    by (simp add: runTestcases_def case_prod_beta)
  define out where "out = fst (runOne (executeCode sb) (rb_code body) (rb_language body) T custom)"
  have inp: "o_input out = customInput" and exp: "o_expectedOutput out = expected"
    by (auto simp: out_def runOne_def custom_def Let_def split: prod.splits sum.splits)
  have judged: "case fst (executeCode sb (rb_code body) (rb_language body) customInput T) of
                 Inr r \<Rightarrow> o_actualOutput out = res_output r
                          \<and> o_passed out = (trim (res_output r) = trim (o_expectedOutput out))
               | Inl msg \<Rightarrow> o_actualOutput out = [] \<and> \<not> o_passed out \<and> o_error out = Some msg"
    by (auto simp: out_def runOne_def custom_def Let_def split: prod.splits sum.splits)
  have matched: "\<exists>m \<in> set (q_testcases question).
         find (\<lambda>tc. trim (tc_input tc) = trim customInput) (q_testcases question) = Some m
         \<and> trim (tc_input m) = trim customInput \<and> expected = tc_expectedOutput m
         \<and> (\<forall>e. run sb d now participantId (body\<lparr>rb_customExpectedOutput := e\<rparr>)
                   = run sb d now participantId body)"
    if "\<exists>tc \<in> set (q_testcases question). trim (tc_input tc) = trim customInput"
  proof -
    from that obtain m
      where m: "find (\<lambda>tc. trim (tc_input tc) = trim customInput) (q_testcases question) = Some m"
      by (cases "find (\<lambda>tc. trim (tc_input tc) = trim customInput) (q_testcases question)")
         (auto simp: find_None_iff)
    then have "m \<in> set (q_testcases question)" "trim (tc_input m) = trim customInput"
      by (auto simp: find_Some_iff)
    with m run_custom_ignores_supplied [OF m assms(2,3)] show ?thesis
      by (auto simp: expected_def)
  qed
  have unmatched: "expected = (case rb_customExpectedOutput body of None \<Rightarrow> [] | Some e \<Rightarrow> e)"
    if "\<forall>tc \<in> set (q_testcases question). trim (tc_input tc) \<noteq> trim customInput"
  proof -
    from that have "find (\<lambda>tc. trim (tc_input tc) = trim customInput) (q_testcases question) = None"
      by (simp add: find_None_iff)
    then show ?thesis by (simp add: expected_def orElse_empty split: option.splits)
  qed
  from res inp exp judged matched unmatched show ?thesis
    unfolding out_def [symmetric] T_def [symmetric] by auto
qed

lemma contest_run_broken:
  "run brokenSandbox (contestDb (Some 2) (Some 64) []) 0 7 (runBody 10 (Some ''5'') None) =
     (RunOk [\<lparr>o_testcaseId = TcCustom, o_passed = False, o_input = ''5'',
              o_expectedOutput = [], o_actualOutput = [],
              o_error = Some (cannotRead ''null'' ''message''), o_executionTime = 0\<rparr>],
      [GetRuntimes])"
  by (simp add: run_def contest_gate10)
     (simp add: contest_defs gate_defs brokenSandbox_def runner_defs)

text \<open>
  The custom input \<open>" 42"\<close> matches the hidden testcase after trimming: the echoed output
  would equal the caller's expected output \<open>42\<close>, but is judged against \<open>SECRET\<close>. The
  custom input \<open>5\<close> matches no testcase and is judged against the caller's \<open>5\<close>. On the
  sandbox whose error response has no body the execution call throws, and the outcome is
  a failure although the empty output would equal the empty expected output.
\<close>

theorem run_custom_expected_witness:
  "(\<exists>out. fst (run echoSandbox (contestDb (Some 2) (Some 64) []) 0 7
               (runBody 10 (Some '' 42'') (Some ''42''))) = RunOk [out]
          \<and> (\<exists>tc \<in> set (q_testcases (question10 (Some 2) (Some 64))).
                tc_visibility tc = Some HIDDEN \<and> trim (tc_input tc) = trim '' 42''
                \<and> o_expectedOutput out = tc_expectedOutput tc)
          \<and> o_expectedOutput out = ''SECRET'' \<and> \<not> o_passed out) \<and>
   (\<exists>out. fst (run echoSandbox (contestDb (Some 2) (Some 64) []) 0 7
               (runBody 10 (Some ''5'') (Some ''5''))) = RunOk [out]
          \<and> (\<forall>tc \<in> set (q_testcases (question10 (Some 2) (Some 64))).
                trim (tc_input tc) \<noteq> trim ''5'')
          \<and> o_expectedOutput out = ''5'' \<and> o_passed out) \<and>
   (\<exists>out. fst (run brokenSandbox (contestDb (Some 2) (Some 64) []) 0 7
               (runBody 10 (Some ''5'') None)) = RunOk [out]
          \<and> o_expectedOutput out = [] \<and> o_actualOutput out = [] \<and> \<not> o_passed out)"
proof -
  have q: "findQuestion (contestDb (Some 2) (Some 64) [])
             (rb_questionId (runBody 10 ci ce)) = Some (question10 (Some 2) (Some 64))" for ci ce
    by (simp add: contest_find10 runBody_def)
  have ci: "rb_customInput (runBody 10 (Some c) ce) = Some c" for c ce
    by (simp add: runBody_def)
  from run_custom_expected [OF contest_run_spaced q ci]
  have first: "\<exists>out. fst (run echoSandbox (contestDb (Some 2) (Some 64) []) 0 7
               (runBody 10 (Some '' 42'') (Some ''42''))) = RunOk [out]
          \<and> (\<exists>tc \<in> set (q_testcases (question10 (Some 2) (Some 64))).
                tc_visibility tc = Some HIDDEN \<and> trim (tc_input tc) = trim '' 42''
                \<and> o_expectedOutput out = tc_expectedOutput tc)
          \<and> o_expectedOutput out = ''SECRET'' \<and> \<not> o_passed out"
    by (simp add: contest_run_spaced) (simp add: question10_def trim_def isWhiteSpace_def)
  from run_custom_expected [OF contest_run_fresh q ci]
  have second: "\<exists>out. fst (run echoSandbox (contestDb (Some 2) (Some 64) []) 0 7
               (runBody 10 (Some ''5'') (Some ''5''))) = RunOk [out]
          \<and> (\<forall>tc \<in> set (q_testcases (question10 (Some 2) (Some 64))).
                trim (tc_input tc) \<noteq> trim ''5'')
          \<and> o_expectedOutput out = ''5'' \<and> o_passed out"
    by (simp add: contest_run_fresh) (simp add: question10_def trim_def isWhiteSpace_def)
  from run_custom_expected [OF contest_run_broken q ci]
  have third: "\<exists>out. fst (run brokenSandbox (contestDb (Some 2) (Some 64) []) 0 7
               (runBody 10 (Some ''5'') None)) = RunOk [out]
          \<and> o_expectedOutput out = [] \<and> o_actualOutput out = [] \<and> \<not> o_passed out"
    by (simp add: contest_run_broken)
  from first second third show ?thesis by blast
qed

section \<open>The gate before execution\<close>

text \<open>
  What the handlers enforce: a request for a question whose level the gate
  \<open>isExamUnlocked\<close> reports locked, or that the participant has not joined, is rejected
  with the store unchanged and no request sent to the sandbox.
\<close>

lemma run_gate:
  assumes "findQuestion d (rb_questionId body) = Some question"
      and "\<not> isExamUnlocked d now participantId (q_examId question) \<or>
           (case findParticipant d participantId of
              None \<Rightarrow> True
            | Some p \<Rightarrow> q_examId question \<notin> set (p_exams p))"
  shows "\<exists>status message. run sb d now participantId body = (Rejected status message, [])"
  using assms
  by (auto simp: run_def list_ex_iff split: option.splits)

lemma submit_gate:
  assumes "findQuestion d (sm_questionId body) = Some question"
      and "\<not> isExamUnlocked d now participantId (q_examId question) \<or>
           (case findParticipant d participantId of
              None \<Rightarrow> True
            | Some p \<Rightarrow> q_examId question \<notin> set (p_exams p))"
  shows "\<exists>status message. submit sb d now participantId body = (Rejected status message, d, [])"
  using assms
  by (auto simp: submit_def list_ex_iff split: option.splits)

lemma submit_locked:
  assumes "sm_questionId body \<noteq> 0" "sm_language body \<noteq> []" "sm_code body \<noteq> []"
      and "findQuestion d (sm_questionId body) = Some question"
      and "\<not> isExamUnlocked d now participantId (q_examId question)"
  shows "submit sb d now participantId body = (Rejected 403 ''Level locked'', d, [])"
  using assms by (simp add: submit_def)

lemma emptyLevel_submit20:
  "submit echoSandbox (emptyLevelDb endTime) now 7 (submitBody 20) =
     (SubmitOk \<lparr>sv_score = Num 10, sv_totalTests = 1, sv_passedTests = 1, sv_status = ''COMPLETED'',
                sv_executionTime = Num 7,
                sv_testcaseResults =
                  [\<lparr>o_testcaseId = TcNum 3, o_passed = True, o_input = ''9'',
                    o_expectedOutput = ''9'', o_actualOutput = ''9'', o_error = None,
                    o_executionTime = 7\<rparr>]\<rparr>,
      (emptyLevelDb endTime)
        \<lparr>db_submissions :=
           [\<lparr>s_participantId = 7, s_questionId = 20, s_language = ''Python'',
             s_code = ''print(input())'', s_score = Num 10, s_totalTests = 1, s_passedTests = 1,
             s_status = ''COMPLETED'', s_executionTime = Num 7\<rparr>]\<rparr>,
      [GetRuntimes,
       PostExecute \<lparr>rq_language = ''python'', rq_version = ''3.10.0'',
                    rq_files = [''print(input())''], rq_stdin = ''9'',
                    rq_compile_timeout = 10000, rq_run_timeout = 2000000\<rparr>])"
  by (simp add: submit_def emptyLevel_gate emptyLevel_find20s emptyLevel_find20)
     (simp add: submitBody_def echoProgram_def question20_def emptyLevelDb_def findParticipant_def
        team7_def echoSandbox_def runner_defs lengthNum_def durationNum_def roundD_small)

text \<open>
  Claim C7 fails for a level that is locked by the rule of the progression and in the
  listing, but not by the handler's gate. Level 1 has no questions and no end time, so
  that it is neither completed nor expired: GET /exams reports level 2 as locked. A
  submit request of team 7 for question 20 of level 2 is executed in the sandbox and a
  Submission is stored.
\<close>

theorem submit_runs_on_listed_locked_level:
  "questionsOf (emptyLevelDb None) 1 = [] \<and>
   \<not> timedOut 0 (level 1 ''Level 1'' None) \<and>
   getExams (emptyLevelDb None) 0 7 =
     ExamsOk [\<lparr>es_exam = level 1 ''Level 1'' None, es_unlocked = True, es_joined = True,
               es_needsCode = False, es_completed = False, es_isLive = True\<rparr>,
              \<lparr>es_exam = level 2 ''Level 2'' None, es_unlocked = False, es_joined = True,
               es_needsCode = False, es_completed = False, es_isLive = True\<rparr>] \<and>
   q_examId question20 = 2 \<and>
   submit echoSandbox (emptyLevelDb None) 0 7 (submitBody 20) =
     (SubmitOk \<lparr>sv_score = Num 10, sv_totalTests = 1, sv_passedTests = 1, sv_status = ''COMPLETED'',
                sv_executionTime = Num 7,
                sv_testcaseResults =
                  [\<lparr>o_testcaseId = TcNum 3, o_passed = True, o_input = ''9'',
                    o_expectedOutput = ''9'', o_actualOutput = ''9'', o_error = None,
                    o_executionTime = 7\<rparr>]\<rparr>,
      (emptyLevelDb None)
        \<lparr>db_submissions :=
           [\<lparr>s_participantId = 7, s_questionId = 20, s_language = ''Python'',
             s_code = ''print(input())'', s_score = Num 10, s_totalTests = 1, s_passedTests = 1,
             s_status = ''COMPLETED'', s_executionTime = Num 7\<rparr>]\<rparr>,
      [GetRuntimes,
       PostExecute \<lparr>rq_language = ''python'', rq_version = ''3.10.0'',
                    rq_files = [''print(input())''], rq_stdin = ''9'',
                    rq_compile_timeout = 10000, rq_run_timeout = 2000000\<rparr>])"
proof -
  have "questionsOf (emptyLevelDb None) 1 = []"
    by (simp add: emptyLevelDb_def question20_def questionsOf_def)
  moreover have "\<not> timedOut 0 (level 1 ''Level 1'' None)" "isLiveAt 0 (level 1 ''Level 1'' None)"
    by (simp_all add: timedOut_def isLiveAt_def level_def)
  moreover have "q_examId question20 = 2"
    by (simp add: question20_def)
  ultimately show ?thesis
    by (simp add: emptyLevel_listing emptyLevel_submit20)
qed

text \<open>
  Level 2 of the contest is locked by the gate for team 7, which has completed nothing.
  The echo program would pass every testcase of question 20, and the submit request is
  rejected all the same.
\<close>

lemma submit_gate_contest:
  "findQuestion (contestDb (Some 2) (Some 64) []) (sm_questionId (submitBody 20)) = Some question20 \<and>
   \<not> isExamUnlocked (contestDb (Some 2) (Some 64) []) 0 7 (q_examId question20) \<and>
   list_all o_passed (fst (runTestcases (executeCode echoSandbox) echoProgram ''Python''
                             (q_testcases question20) 2000 ''256m'')) \<and>
   (\<exists>status message.
      submit echoSandbox (contestDb (Some 2) (Some 64) []) 0 7 (submitBody 20)
        = (Rejected status message, contestDb (Some 2) (Some 64) [], []))"
proof -
  have q: "findQuestion (contestDb (Some 2) (Some 64) []) (sm_questionId (submitBody 20)) = Some question20"
    by (simp add: contest_find20 submitBody_def)
  have locked: "\<not> isExamUnlocked (contestDb (Some 2) (Some 64) []) 0 7 (q_examId question20)"
    by (simp add: contest_find20 contest_gate20_locked)
  have pass: "list_all o_passed (fst (runTestcases (executeCode echoSandbox) echoProgram ''Python''
                             (q_testcases question20) 2000 ''256m''))"
    by (simp add: question20_def echoSandbox_def echoProgram_def runner_defs)
  from locked have "\<not> isExamUnlocked (contestDb (Some 2) (Some 64) []) 0 7 (q_examId question20) \<or>
           (case findParticipant (contestDb (Some 2) (Some 64) []) 7 of
              None \<Rightarrow> True
            | Some p \<Rightarrow> q_examId question20 \<notin> set (p_exams p))" ..
  from submit_gate [OF q this, of echoSandbox] q locked pass show ?thesis by blast
qed

section \<open>Scoring\<close>

lemma submit_ok_store:
  assumes "submit sb d now participantId body = (SubmitOk v, d', calls)"
      and "findQuestion d (sm_questionId body) = Some question"
      and "results = fst (runTestcases (executeCode sb) (sm_code body) (sm_language body)
                              (q_testcases question)
                              ((case q_timeLimit question of None \<Rightarrow> 0 | Some t \<Rightarrow> t) * 1000)
                              (memTemplate (q_memoryLimit question)))"
  shows "q_testcases question \<noteq> [] \<and>
         d' = d\<lparr>db_submissions := db_submissions d @
                 [\<lparr>s_participantId = participantId,
                   s_questionId = sm_questionId body,
                   s_language = sm_language body,
                   s_code = sm_code body,
                   s_score = jsMul (jsDiv (lengthNum (filter o_passed results)) (lengthNum results))
                               (Num (q_maxMarks question)),
                   s_totalTests = length results,
                   s_passedTests = length (filter o_passed results),
                   s_status = ''COMPLETED'',
                   s_executionTime =
                     jsDiv (foldl (\<lambda>sum r. jsAdd sum (durationNum (o_executionTime r))) (Num 0) results)
                           (lengthNum results)\<rparr>]\<rparr>"
  using assms
  by (simp add: submit_def Let_def case_prod_beta split: option.splits if_splits)

text \<open>Roundings that grading question 30 needs, each computed from the definition.\<close>

lemma roundD_grading:
  "roundD 21 = Num 21" "roundD 28 = Num 28" "roundD 35 = Num 35"
  "roundD 42 = Num 42" "roundD 49 = Num 49" "roundD 56 = Num 56" "roundD 63 = Num 63"
  "roundD 71 = Num 71"
  "roundD (7 / 10) = Num (3152519739159347 / 4503599627370496)"
  "roundD (71 / 10) = Num (3996944669291315 / 562949953421312)"
  "roundD (141863388262170615 / 2251799813685248) = Num (8866461766385663 / 140737488355328)"
  by code_simp+

lemma grading_submit30:
  "fst (snd (submit pacedSandbox gradingDb 0 7 (submitBody 30))) =
     gradingDb
       \<lparr>db_submissions :=
          [\<lparr>s_participantId = 7, s_questionId = 30, s_language = ''Python'',
            s_code = ''print(input())'',
            s_score = Num (8866461766385663 / 140737488355328),
            s_totalTests = 10, s_passedTests = 7, s_status = ''COMPLETED'',
            s_executionTime = Num (3996944669291315 / 562949953421312)\<rparr>]\<rparr>"
  by (simp add: submit_def gradingDb_def question30_def hiddenTestcase_def level_def team7_def
        submitBody_def echoProgram_def pacedSandbox_def echoSandbox_def gate_defs runner_defs
        lengthNum_def durationNum_def roundD_small roundD_grading)

text \<open>
  Claim C8 as stated fails: the score and the mean are computed in double precision.
  On the sandbox that takes 6 ms and one more for each character of input, with 7 of 10
  testcases passed and 90 marks, \<open>7 / 10\<close> is rounded, and its product with
  90 is rounded again: the stored score is \<open>62.99999999999999\<close>, not
  \<open>(7 / 10) * 90 = 63\<close>. The execution times add up to 71 ms, and the stored mean is
  the double nearest to \<open>7.1\<close>, not \<open>71 / 10\<close>.
\<close>

theorem submit_score_counterexample:
  "length (q_testcases question30) = 10 \<and> q_maxMarks question30 = 90 \<and>
   fst (snd (submit pacedSandbox gradingDb 0 7 (submitBody 30))) =
     gradingDb
       \<lparr>db_submissions :=
          [\<lparr>s_participantId = 7, s_questionId = 30, s_language = ''Python'',
            s_code = ''print(input())'',
            s_score = Num (8866461766385663 / 140737488355328),
            s_totalTests = 10, s_passedTests = 7, s_status = ''COMPLETED'',
            s_executionTime = Num (3996944669291315 / 562949953421312)\<rparr>]\<rparr> \<and>
   Num (8866461766385663 / 140737488355328) \<noteq> Num ((7 / 10) * 90) \<and>
   Num (3996944669291315 / 562949953421312) \<noteq> Num (71 / 10)"
  by (simp add: grading_submit30) (simp add: question30_def)

text \<open>
  Claim C8, amended. When POST /submit succeeds, the run produced \<open>n \<ge> 1\<close> outcomes, one
  per testcase of the question, of which \<open>k\<close> passed, and exactly one submission is
  appended to the store, with \<open>totalTests = n\<close>, \<open>passedTests = k\<close>, the score the
  double-precision product of the rounded quotient \<open>k / n\<close> with \<open>maxMarks\<close>, and
  \<open>executionTime\<close> the double-precision quotient by \<open>n\<close> of the sum of the execution
  times of all \<open>n\<close> outcomes, failed ones included. The score is exactly
  \<open>(k / n) * maxMarks\<close> whenever \<open>k / n\<close> and that product are doubles, and the mean is
  exact whenever the sum and the mean are.
\<close>

theorem submit_score:
  assumes "submit sb d now participantId body = (SubmitOk v, d', calls)"
      and "findQuestion d (sm_questionId body) = Some question"
  shows "let results = fst (runTestcases (executeCode sb) (sm_code body) (sm_language body)
                              (q_testcases question)
                              ((case q_timeLimit question of None \<Rightarrow> 0 | Some t \<Rightarrow> t) * 1000)
                              (memTemplate (q_memoryLimit question)));
             n = length results;
             k = length (filter o_passed results);
             total = foldl (\<lambda>sum r. jsAdd sum (Num (of_int (o_executionTime r)))) (Num 0) results;
             exactTotal = of_int (sum_list (map o_executionTime results))
         in n = length (q_testcases question) \<and> 1 \<le> n \<and>
            (\<exists>s. db_submissions d' = db_submissions d @ [s]
                 \<and> s_totalTests s = n \<and> s_passedTests s = k
                 \<and> s_score s = jsMul (roundD (of_nat k / of_nat n)) (Num (q_maxMarks question))
                 \<and> (roundD (of_nat k / of_nat n) = Num (of_nat k / of_nat n)
                      \<and> roundD ((of_nat k / of_nat n) * q_maxMarks question)
                          = Num ((of_nat k / of_nat n) * q_maxMarks question)
                     \<longrightarrow> s_score s = Num ((of_nat k / of_nat n) * q_maxMarks question))
                 \<and> s_executionTime s = jsDiv total (Num (of_nat n))
                 \<and> (total = Num exactTotal \<and> roundD (exactTotal / of_nat n) = Num (exactTotal / of_nat n)
                     \<longrightarrow> s_executionTime s = Num (exactTotal / of_nat n))
                 \<and> s_status s = ''COMPLETED'')"
proof -
  define results where "results = fst (runTestcases (executeCode sb) (sm_code body) (sm_language body)
                              (q_testcases question)
                              ((case q_timeLimit question of None \<Rightarrow> 0 | Some t \<Rightarrow> t) * 1000)
                              (memTemplate (q_memoryLimit question)))"
  define n where "n = length results"
  define k where "k = length (filter o_passed results)"
  define total where
    "total = foldl (\<lambda>sum r. jsAdd sum (Num (of_int (o_executionTime r)))) (Num 0) results"
  define exactTotal :: rat where "exactTotal = of_int (sum_list (map o_executionTime results))"
  have len: "n = length (q_testcases question)"
    by (simp add: n_def results_def runTestcases_length)
  from submit_ok_store [OF assms results_def]
  have ne: "q_testcases question \<noteq> []"
    and store: "db_submissions d' = db_submissions d @
                 [\<lparr>s_participantId = participantId,
                   s_questionId = sm_questionId body,
                   s_language = sm_language body,
                   s_code = sm_code body,
                   s_score = jsMul (jsDiv (Num (of_nat k)) (Num (of_nat n))) (Num (q_maxMarks question)),
                   s_totalTests = n,
                   s_passedTests = k,
                   s_status = ''COMPLETED'',
                   s_executionTime = jsDiv total (Num (of_nat n))\<rparr>]"
    by (simp_all add: lengthNum_def durationNum_def n_def k_def total_def)
  from ne len have pos: "1 \<le> n"
    by (cases "q_testcases question") simp_all
  then have quot: "jsDiv (Num (of_nat k)) (Num (of_nat n)) = roundD (of_nat k / of_nat n)"
    by simp
  have mean: "jsDiv total (Num (of_nat n)) = Num (exactTotal / of_nat n)"
    if "total = Num exactTotal" "roundD (exactTotal / of_nat n) = Num (exactTotal / of_nat n)"
    using that pos by simp
  have exact: "jsMul (roundD (of_nat k / of_nat n)) (Num (q_maxMarks question))
                 = Num ((of_nat k / of_nat n) * q_maxMarks question)"
    if "roundD (of_nat k / of_nat n) = Num (of_nat k / of_nat n)"
       "roundD ((of_nat k / of_nat n) * q_maxMarks question)
          = Num ((of_nat k / of_nat n) * q_maxMarks question)"
    using that by simp
  from store quot exact mean
  have "\<exists>s. db_submissions d' = db_submissions d @ [s]
                 \<and> s_totalTests s = n \<and> s_passedTests s = k
                 \<and> s_score s = jsMul (roundD (of_nat k / of_nat n)) (Num (q_maxMarks question))
                 \<and> (roundD (of_nat k / of_nat n) = Num (of_nat k / of_nat n)
                      \<and> roundD ((of_nat k / of_nat n) * q_maxMarks question)
                          = Num ((of_nat k / of_nat n) * q_maxMarks question)
                     \<longrightarrow> s_score s = Num ((of_nat k / of_nat n) * q_maxMarks question))
                 \<and> s_executionTime s = jsDiv total (Num (of_nat n))
                 \<and> (total = Num exactTotal \<and> roundD (exactTotal / of_nat n) = Num (exactTotal / of_nat n)
                     \<longrightarrow> s_executionTime s = Num (exactTotal / of_nat n))
                 \<and> s_status s = ''COMPLETED''"
    by simp
  with len pos show ?thesis
    unfolding Let_def results_def [symmetric] n_def [symmetric] k_def [symmetric]
      total_def [symmetric] exactTotal_def [symmetric]
    by blast
qed

text \<open>
  One of the two testcases of question 10 passes, each in 7 ms: \<open>1 / 2\<close>,
  \<open>(1 / 2) * 20\<close>, the sum 14 and \<open>14 / 2\<close> are doubles, and the stored score and mean
  are exact.
\<close>

theorem submit_score_witness:
  "(\<exists>v. fst (submit echoSandbox (contestDb (Some 2) (Some 64) []) 0 7 (submitBody 10)) = SubmitOk v) \<and>
   q_maxMarks (question10 (Some 2) (Some 64)) = 20 \<and>
   roundD (1 / 2) = Num (1 / 2) \<and> roundD ((1 / 2) * 20) = Num ((1 / 2) * 20) \<and>
   (\<exists>s. db_submissions (fst (snd (submit echoSandbox (contestDb (Some 2) (Some 64) []) 0 7 (submitBody 10))))
           = db_submissions (contestDb (Some 2) (Some 64) []) @ [s]
        \<and> s_totalTests s = 2 \<and> s_passedTests s = 1 \<and> s_score s = Num ((1 / 2) * 20)
        \<and> s_executionTime s = Num ((7 + 7) / 2))"
proof -
  have q: "findQuestion (contestDb (Some 2) (Some 64) []) (sm_questionId (submitBody 10))
             = Some (question10 (Some 2) (Some 64))"
    by (simp add: contest_find10 submitBody_def)
  have results: "fst (runTestcases (executeCode echoSandbox) (sm_code (submitBody 10))
                   (sm_language (submitBody 10)) (q_testcases (question10 (Some 2) (Some 64)))
                   ((case q_timeLimit (question10 (Some 2) (Some 64)) of None \<Rightarrow> 0 | Some t \<Rightarrow> t) * 1000)
                   (memTemplate (q_memoryLimit (question10 (Some 2) (Some 64))))) =
     [\<lparr>o_testcaseId = TcNum 1, o_passed = True, o_input = ''1'', o_expectedOutput = ''1'',
       o_actualOutput = ''1'', o_error = None, o_executionTime = 7\<rparr>,
      \<lparr>o_testcaseId = TcNum 2, o_passed = False, o_input = ''42'', o_expectedOutput = ''SECRET'',
       o_actualOutput = ''42'', o_error = None, o_executionTime = 7\<rparr>]"
    by (simp add: question10_def submitBody_def echoSandbox_def echoProgram_def runner_defs)
  from submit_score [OF contest_submit10 q] results
  have "\<exists>s. db_submissions (contestDb (Some 2) (Some 64)
        [\<lparr>s_participantId = 7, s_questionId = 10, s_language = ''Python'',
          s_code = ''print(input())'', s_score = Num 10, s_totalTests = 2, s_passedTests = 1,
          s_status = ''COMPLETED'', s_executionTime = Num 7\<rparr>])
           = db_submissions (contestDb (Some 2) (Some 64) []) @ [s]
        \<and> s_totalTests s = 2 \<and> s_passedTests s = 1 \<and> s_score s = Num ((1 / 2) * 20)
        \<and> s_executionTime s = Num ((7 + 7) / 2)"
    by (auto simp: Let_def question10_def roundD_small)
  then show ?thesis
    by (simp add: contest_submit10 roundD_small) (simp add: question10_def)
qed

end
